theory Spec2Isabelle
  imports Main "HOL-Library.AList"
begin

section \<open>Values, configuration and the outside world\<close>

text \<open>
  The forwarder and the controller are written over \<^verbatim>\<open>any\<close>: the normalized payload is
  whatever the JSON decoder produced. \<open>jsval\<close> is that value space. Numbers are kept to
  the integers; the only thing the code asks of a number is whether it is zero.
\<close>

datatype jsval =
    JUndefined
  | JNull
  | JBool bool
  | JNum int
  | JStr string
  | JArr "jsval list"
  | JObj "(string \<times> jsval) list"

datatype error = TypeError string | Error string

fun message :: "error \<Rightarrow> string" where
  "message (TypeError m) = m"
| "message (Error m) = m"

text \<open>JavaScript truthiness, as \<^verbatim>\<open>||\<close>, \<^verbatim>\<open>!\<close> and \<^verbatim>\<open>if\<close> read it.\<close>

fun truthy :: "jsval \<Rightarrow> bool" where
  "truthy JUndefined = False"
| "truthy JNull = False"
| "truthy (JBool b) = b"
| "truthy (JNum n) = (n \<noteq> 0)"
| "truthy (JStr s) = (s \<noteq> [])"
| "truthy (JArr xs) = True"
| "truthy (JObj kvs) = True"

definition js_or :: "jsval \<Rightarrow> jsval \<Rightarrow> jsval" where
  "js_or a b = (if truthy a then a else b)"

text \<open>
  Reading a data property such as \<^verbatim>\<open>.type\<close> or \<^verbatim>\<open>.id\<close>: \<^verbatim>\<open>null\<close> and \<^verbatim>\<open>undefined\<close> throw a
  TypeError, an object yields the property or \<^verbatim>\<open>undefined\<close>, every other value yields
  \<^verbatim>\<open>undefined\<close> (neither name is a prototype member of strings, numbers or arrays).
\<close>

fun get_prop :: "jsval \<Rightarrow> string \<Rightarrow> error + jsval" where
  "get_prop JUndefined k = Inl (TypeError (''Cannot read properties of undefined (reading '' @ k @ '')''))"
| "get_prop JNull k = Inl (TypeError (''Cannot read properties of null (reading '' @ k @ '')''))"
| "get_prop (JObj kvs) k = Inr (case map_of kvs k of None \<Rightarrow> JUndefined | Some v \<Rightarrow> v)"
| "get_prop v k = Inr JUndefined"

text \<open>A string that may be \<^verbatim>\<open>undefined\<close> is truthy when it is defined and not empty.\<close>

fun truthy_str :: "string option \<Rightarrow> bool" where
  "truthy_str None = False"
| "truthy_str (Some s) = (s \<noteq> [])"

subsection \<open>Number and date rendering\<close>

text \<open>\<^verbatim>\<open>Number.prototype.toString\<close> on a non-negative integer: its decimal digits.\<close>

definition digit_char :: "nat \<Rightarrow> char" where
  "digit_char d =
     (if d = 0 then CHR ''0'' else if d = 1 then CHR ''1'' else if d = 2 then CHR ''2''
      else if d = 3 then CHR ''3'' else if d = 4 then CHR ''4'' else if d = 5 then CHR ''5''
      else if d = 6 then CHR ''6'' else if d = 7 then CHR ''7'' else if d = 8 then CHR ''8''
      else CHR ''9'')"

fun nat_to_string :: "nat \<Rightarrow> string" where
  "nat_to_string n =
     (if n < 10 then [digit_char n]
      else nat_to_string (n div 10) @ [digit_char (n mod 10)])"

declare nat_to_string.simps [simp del]

definition pad_left :: "nat \<Rightarrow> nat \<Rightarrow> string" where
  "pad_left width n =
     (let d = nat_to_string n in replicate (width - length d) CHR ''0'' @ d)"

text \<open>Day count since 1970-01-01 to (year, month, day) of the proleptic Gregorian calendar.\<close>

definition civil_from_days :: "nat \<Rightarrow> nat \<times> nat \<times> nat" where
  "civil_from_days z0 =
     (let z = z0 + 719468;
          era = z div 146097;
          doe = z mod 146097;
          yoe = (doe - doe div 1460 + doe div 36524 - doe div 146096) div 365;
          y = yoe + era * 400;
          doy = doe - (365 * yoe + yoe div 4 - yoe div 100);
          mp = (5 * doy + 2) div 153;
          d = doy - (153 * mp + 2) div 5 + 1;
          m = (if mp < 10 then mp + 3 else mp - 9)
      in (if m \<le> 2 then y + 1 else y, m, d))"

text \<open>
  \<^verbatim>\<open>Date.prototype.toISOString\<close> of a time given in milliseconds since the epoch:
  \<^verbatim>\<open>YYYY-MM-DDTHH:mm:ss.sssZ\<close>, and the expanded year \<^verbatim>\<open>+YYYYYY\<close> beyond 9999.
\<close>

definition toISOString :: "nat \<Rightarrow> string" where
  "toISOString ms =
     (let secs = ms div 1000;
          days = secs div 86400;
          sod = secs mod 86400;
          ymd = civil_from_days days;
          y = fst ymd
      in (if y \<le> 9999 then pad_left 4 y else ''+'' @ pad_left 6 y)
         @ ''-'' @ pad_left 2 (fst (snd ymd))
         @ ''-'' @ pad_left 2 (snd (snd ymd))
         @ ''T'' @ pad_left 2 (sod div 3600)
         @ '':'' @ pad_left 2 (sod mod 3600 div 60)
         @ '':'' @ pad_left 2 (sod mod 60)
         @ ''.'' @ pad_left 3 (ms mod 1000) @ ''Z'')"

subsection \<open>Records of the forwarder and the event logger\<close>

text \<open>The object literal built by \<^verbatim>\<open>adaptPayloadForMicroBackend\<close>.\<close>

record envelope =
  source :: string
  event_type :: jsval
  external_id :: jsval
  payload :: jsval
  occurred_at :: string
  correlation_id :: "string option"
  internal_event_id :: string

text \<open>\<^verbatim>\<open>{ ok: boolean; status: number; body?: any }\<close>; an absent body is \<open>JUndefined\<close>.\<close>

record forward_result =
  ok :: bool
  status :: nat
  body :: jsval

type_synonym headers = "(string \<times> string) list"

text \<open>The three arguments of one \<^verbatim>\<open>http.post(url, payload, { headers })\<close>.\<close>

record http_request =
  post_url :: string
  post_payload :: envelope
  post_headers :: headers

text \<open>What the controller reads from the Express request.\<close>

record express_request =
  req_internal_event_id :: string
  req_correlationId :: "string option"
  req_normalizedPayload :: jsval

text \<open>
  What \<^verbatim>\<open>http.post\<close> does with one call: it resolves with a status and data, or it
  rejects with an error that carries \<^verbatim>\<open>response.status\<close> (absent on a network failure),
  \<^verbatim>\<open>response.data\<close> and a message.
\<close>

datatype http_outcome =
    Resolved nat jsval
  | Rejected "nat option" jsval string

datatype log_status = Received | Processing | Success | Failed

text \<open>
  \<^verbatim>\<open>WebhookEventLog\<close>. The fields \<^verbatim>\<open>source\<close>, \<^verbatim>\<open>status\<close> and \<^verbatim>\<open>correlation_id\<close> carry the
  prefix \<open>log_\<close> here because the envelope and the forward result own those names;
  \<^verbatim>\<open>raw_payload\<close> is never assigned by the logger and is left out. A \<^verbatim>\<open>Date\<close> is its time
  in milliseconds.
\<close>

record WebhookEventLog =
  event_id :: string
  env :: string
  service_role :: string
  log_source :: string
  error_code :: "string option"
  error_message :: "string option"
  retry_count :: int
  last_error :: "string option"
  log_status :: log_status
  response_status :: "nat option"
  timestamp :: nat
  log_correlation_id :: "string option"

text \<open>
  The process configuration \<^verbatim>\<open>env\<close> (module \<^verbatim>\<open>config/env\<close>), taken as a parameter. A
  variable that is not set is the empty string: the code reads the URL, the secret and
  the token only after testing them for truthiness.
\<close>

record config =
  MICRO_BACKEND_URL :: string
  MICRO_BACKEND_HMAC_SECRET :: string
  MICRO_BACKEND_JWT :: string
  MICRO_BACKEND_DEVICE_ID :: string
  FORWARD_TO_MICRO_BACKEND_ONLY :: bool
  APP_ENV :: string
  SERVICE_ROLE :: string

text \<open>Parameters of one forwarding call.\<close>

record forward_params =
  p_payload :: jsval
  p_internalEventId :: string
  p_correlationId :: "string option"

text \<open>
  Modelled from the spec: \<^verbatim>\<open>forwardToN8n\<close> of module \<^verbatim>\<open>eventRouter\<close>, the legacy forwarder,
  is not among the sources. The specification's ForwardingClient "never throws -- all
  failure is represented in the result", so the legacy forwarder is a function from the
  parameters of the call to a forward result.
\<close>

type_synonym n8n_forwarder = "forward_params \<Rightarrow> forward_result"

text \<open>
  Everything the code calls that lives outside the repository's sources: the platform's
  HMAC (\<^verbatim>\<open>crypto.createHmac('sha256', key).update(message).digest('hex')\<close>) and JSON
  serializer, the clock, the HTTP client, the jitter helper, the database and the legacy
  forwarder. The clock, the HTTP client, the jitter helper and the database are given
  by the answer to their k-th call, so that any behaviour over time can be described.
  \<open>db_fault k = Some m\<close> means that the k-th database operation throws \<open>Error m\<close>.
\<close>

record runtime =
  hmac_sha256_hex :: "string \<Rightarrow> string \<Rightarrow> string"
  JSON_stringify :: "envelope \<Rightarrow> string"
  now_ms :: "nat \<Rightarrow> nat"
  http_post :: "nat \<Rightarrow> http_request \<Rightarrow> http_outcome"
  getJitterDelay :: "nat \<Rightarrow> nat \<Rightarrow> nat"
  db_fault :: "nat \<Rightarrow> string option"
  forwardToN8n :: n8n_forwarder

text \<open>The effects of a run, in the order they happen.\<close>

datatype event =
    ClockRead nat
  | Post http_request
  | Sleep nat
  | DbWrite WebhookEventLog
  | Respond nat jsval

text \<open>
  The state threaded through a run: how many times each outside service has been
  called, and the trace of effects so far.
\<close>

record state =
  n_clock :: nat
  n_http :: nat
  n_jitter :: nat
  n_db :: nat
  trace :: "event list"

definition init_state :: state where
  "init_state = \<lparr>n_clock = 0, n_http = 0, n_jitter = 0, n_db = 0, trace = []\<rparr>"

section \<open>Calls to the outside world\<close>

definition emit :: "event \<Rightarrow> state \<Rightarrow> state" where
  "emit e s = s\<lparr>trace := trace s @ [e]\<rparr>"

text \<open>\<^verbatim>\<open>Date.now()\<close> and \<^verbatim>\<open>new Date()\<close>: one reading of the clock, in milliseconds.\<close>

definition clock_now :: "runtime \<Rightarrow> state \<Rightarrow> nat \<times> state" where
  "clock_now rt s =
     (let t = now_ms rt (n_clock s)
      in (t, emit (ClockRead t) (s\<lparr>n_clock := n_clock s + 1\<rparr>)))"

definition http_post_call :: "runtime \<Rightarrow> http_request \<Rightarrow> state \<Rightarrow> http_outcome \<times> state" where
  "http_post_call rt rq s =
     (http_post rt (n_http s) rq, emit (Post rq) (s\<lparr>n_http := n_http s + 1\<rparr>))"

definition jitter_call :: "runtime \<Rightarrow> nat \<Rightarrow> state \<Rightarrow> nat \<times> state" where
  "jitter_call rt m s = (getJitterDelay rt (n_jitter s) m, s\<lparr>n_jitter := n_jitter s + 1\<rparr>)"

definition sleep :: "nat \<Rightarrow> state \<Rightarrow> state" where
  "sleep ms s = emit (Sleep ms) s"

text \<open>One operation against MongoDB: it returns, or it throws.\<close>

definition db_op :: "runtime \<Rightarrow> state \<Rightarrow> (error + unit) \<times> state" where
  "db_op rt s =
     ((case db_fault rt (n_db s) of None \<Rightarrow> Inr () | Some m \<Rightarrow> Inl (Error m)),
      s\<lparr>n_db := n_db s + 1\<rparr>)"

section \<open>services/microBackendForwarder.ts\<close>

definition MAX_MICRO_BACKEND_RETRIES :: nat where
  "MAX_MICRO_BACKEND_RETRIES = 3"

text \<open>The result is the pair \<^verbatim>\<open>{ signature, timestamp }\<close>.\<close>

definition generateMicroBackendSignature ::
  "runtime \<Rightarrow> envelope \<Rightarrow> string \<Rightarrow> state \<Rightarrow> (string \<times> string) \<times> state" where
  "generateMicroBackendSignature rt pl secret s =
     (case clock_now rt s of (now, s1) \<Rightarrow>
        (let ts = nat_to_string (now div 1000);
             msg = ts @ ''.'' @ JSON_stringify rt pl;
             sg = hmac_sha256_hex rt secret msg
         in ((sg, ts), s1)))"

text \<open>
  The object literal is evaluated field by field: the two property reads come before
  \<^verbatim>\<open>new Date()\<close>, and a read on \<^verbatim>\<open>null\<close> or \<^verbatim>\<open>undefined\<close> throws.
\<close>

definition adaptPayloadForMicroBackend ::
  "runtime \<Rightarrow> jsval \<Rightarrow> string \<Rightarrow> string option \<Rightarrow> state \<Rightarrow> (error + envelope) \<times> state" where
  "adaptPayloadForMicroBackend rt normalizedPayload internalEventId correlationId s =
     (case get_prop normalizedPayload ''type'' of
        Inl e \<Rightarrow> (Inl e, s)
      | Inr ty \<Rightarrow>
          (case get_prop normalizedPayload ''id'' of
             Inl e \<Rightarrow> (Inl e, s)
           | Inr idv \<Rightarrow>
               (case clock_now rt s of (now, s1) \<Rightarrow>
                  (Inr \<lparr>source = ''webhook-gateway'',
                        event_type = js_or ty (JStr ''webhook_received''),
                        external_id = js_or idv (JStr internalEventId),
                        payload = normalizedPayload,
                        occurred_at = toISOString now,
                        correlation_id = correlationId,
                        internal_event_id = internalEventId\<rparr>, s1))))"

text \<open>
  The status under which the catch block returns at once:
  \<^verbatim>\<open>status && status >= 400 && status < 500 && status !== 429\<close>.
\<close>

fun terminal_status :: "nat option \<Rightarrow> nat option" where
  "terminal_status None = None"
| "terminal_status (Some st) =
     (if st \<noteq> 0 \<and> 400 \<le> st \<and> st < 500 \<and> st \<noteq> 429 then Some st else None)"

text \<open>The block under \<^verbatim>\<open>if (attempt < maxRetries)\<close>: jitter, then the wait.\<close>

definition backoff :: "runtime \<Rightarrow> nat \<Rightarrow> nat \<Rightarrow> state \<Rightarrow> state" where
  "backoff rt maxRetries attempt s =
     (if attempt < maxRetries then
        (case jitter_call rt 500 s of (jitter, s1) \<Rightarrow>
           (let baseDelay = 2 ^ attempt * 1000; delay = baseDelay + jitter
            in sleep delay s1))
      else s)"

text \<open>
  The \<^verbatim>\<open>for\<close> loop of \<^verbatim>\<open>forwardWithRetry\<close> from a given attempt on; \<open>lastError\<close> is the
  message of the last error caught.
\<close>

function forward_loop ::
  "runtime \<Rightarrow> string \<Rightarrow> envelope \<Rightarrow> headers \<Rightarrow> nat \<Rightarrow> nat \<Rightarrow> string option \<Rightarrow> state
     \<Rightarrow> forward_result \<times> state" where
  "forward_loop rt url pl hs maxRetries attempt lastError s =
     (if attempt \<le> maxRetries then
        (case http_post_call rt \<lparr>post_url = url, post_payload = pl, post_headers = hs\<rparr> s of
           (Resolved st d, s1) \<Rightarrow> (\<lparr>ok = True, status = st, body = d\<rparr>, s1)
         | (Rejected st d msg, s1) \<Rightarrow>
             (case terminal_status st of
                Some n \<Rightarrow> (\<lparr>ok = False, status = n, body = d\<rparr>, s1)
              | None \<Rightarrow>
                  forward_loop rt url pl hs maxRetries (attempt + 1) (Some msg)
                    (backoff rt maxRetries attempt s1)))
      else
        (\<lparr>ok = False, status = 0,
          body = JObj [(''error'', case lastError of None \<Rightarrow> JUndefined | Some m \<Rightarrow> JStr m)]\<rparr>, s))"
  by pat_completeness auto
termination
  by (relation "measure (\<lambda>(rt, url, pl, hs, maxRetries, attempt, lastError, s).
                  Suc maxRetries - attempt)") auto

declare forward_loop.simps [simp del]

definition forwardWithRetry ::
  "runtime \<Rightarrow> string \<Rightarrow> envelope \<Rightarrow> headers \<Rightarrow> nat \<Rightarrow> state \<Rightarrow> forward_result \<times> state" where
  "forwardWithRetry rt url pl hs maxRetries s = forward_loop rt url pl hs maxRetries 1 None s"

text \<open>The header object of \<^verbatim>\<open>forwardToMicroBackend\<close>, with its two optional entries.\<close>

definition build_headers :: "config \<Rightarrow> string \<Rightarrow> string \<Rightarrow> string option \<Rightarrow> headers" where
  "build_headers cfg sg ts correlationId =
     (let h0 = [(''Content-Type'', ''application/json''),
                (''X-Signature'', sg),
                (''X-Timestamp'', ts),
                (''X-Device-ID'', MICRO_BACKEND_DEVICE_ID cfg)];
          h1 = (if MICRO_BACKEND_JWT cfg \<noteq> []
                then AList.update ''Authorization'' (''Bearer '' @ MICRO_BACKEND_JWT cfg) h0
                else h0)
      in (if truthy_str correlationId
          then AList.update ''X-Correlation-Id'' (case correlationId of Some c \<Rightarrow> c | None \<Rightarrow> []) h1
          else h1))"

definition forwardToMicroBackend ::
  "config \<Rightarrow> runtime \<Rightarrow> forward_params \<Rightarrow> state \<Rightarrow> (error + forward_result) \<times> state" where
  "forwardToMicroBackend cfg rt params s =
     (let baseUrl = MICRO_BACKEND_URL cfg;
          hmacSecret = MICRO_BACKEND_HMAC_SECRET cfg
      in if baseUrl = [] then (Inr \<lparr>ok = True, status = 204, body = JUndefined\<rparr>, s)
         else if hmacSecret = [] then
           (Inr \<lparr>ok = False, status = 0,
                 body = JObj [(''error'', JStr ''MICRO_BACKEND_HMAC_SECRET not configured'')]\<rparr>, s)
         else
           (case adaptPayloadForMicroBackend rt (p_payload params) (p_internalEventId params)
                   (p_correlationId params) s of
              (Inl e, s1) \<Rightarrow> (Inl e, s1)
            | (Inr adaptedPayload, s1) \<Rightarrow>
                (case generateMicroBackendSignature rt adaptedPayload hmacSecret s1 of
                   ((sg, ts), s2) \<Rightarrow>
                     (let hs = build_headers cfg sg ts (p_correlationId params);
                          endpoint = baseUrl @ ''/api/v1/flow/create''
                      in (case forwardWithRetry rt endpoint adaptedPayload hs
                                 MAX_MICRO_BACKEND_RETRIES s2 of
                            (result, s3) \<Rightarrow> (Inr result, s3))))))"

definition forwardToDestination ::
  "config \<Rightarrow> runtime \<Rightarrow> forward_params \<Rightarrow> state \<Rightarrow> (error + forward_result) \<times> state" where
  "forwardToDestination cfg rt params s =
     (if FORWARD_TO_MICRO_BACKEND_ONLY cfg then forwardToMicroBackend cfg rt params s
      else (Inr (forwardToN8n rt params), s))"

section \<open>db/mongo.ts and services/webhookEventLogger.ts\<close>

text \<open>
  \<^verbatim>\<open>getDb\<close> throws when the connection string is missing or the connection fails, and
  returns the handle otherwise: one database operation.
\<close>

definition getDb :: "runtime \<Rightarrow> state \<Rightarrow> (error + unit) \<times> state" where
  "getDb rt s = db_op rt s"

text \<open>Up to \<open>k\<close> calls of \<^verbatim>\<open>createIndex\<close> in a row; the first one that throws ends the block.\<close>

fun createIndexes :: "nat \<Rightarrow> runtime \<Rightarrow> state \<Rightarrow> (error + unit) \<times> state" where
  "createIndexes 0 rt s = (Inr (), s)"
| "createIndexes (Suc k) rt s =
     (case db_op rt s of
        (Inl e, s1) \<Rightarrow> (Inl e, s1)
      | (Inr u, s1) \<Rightarrow> createIndexes k rt s1)"

text \<open>The four indexes are created inside \<^verbatim>\<open>try\<close>; the \<^verbatim>\<open>catch\<close> only warns.\<close>

definition ensureCollection :: "runtime \<Rightarrow> state \<Rightarrow> (error + unit) \<times> state" where
  "ensureCollection rt s =
     (case createIndexes (Suc (Suc (Suc (Suc 0)))) rt s of
        (Inl e, s1) \<Rightarrow> (Inr (), s1)
      | (Inr u, s1) \<Rightarrow> (Inr (), s1))"

text \<open>
  \<^verbatim>\<open>collection.updateOne({ event_id }, { $set: event }, { upsert: true })\<close>: it throws, or
  the document is written. A write is recorded in the trace; a field that every write
  sets (as \<^verbatim>\<open>status\<close> and \<^verbatim>\<open>retry_count\<close> are) has, under \<^verbatim>\<open>$set\<close>, the value of the latest
  write for that \<^verbatim>\<open>event_id\<close>.
\<close>

definition updateOne :: "runtime \<Rightarrow> WebhookEventLog \<Rightarrow> state \<Rightarrow> (error + unit) \<times> state" where
  "updateOne rt ev s =
     (case db_op rt s of
        (Inl e, s1) \<Rightarrow> (Inl e, s1)
      | (Inr u, s1) \<Rightarrow> (Inr (), emit (DbWrite ev) s1))"

text \<open>\<^verbatim>\<open>WebhookEventLogger.log\<close>: the write inside \<^verbatim>\<open>try\<close>; the \<^verbatim>\<open>catch\<close> only warns.\<close>

definition log :: "runtime \<Rightarrow> WebhookEventLog \<Rightarrow> state \<Rightarrow> (error + unit) \<times> state" where
  "log rt ev s =
     (case updateOne rt ev s of
        (Inl e, s1) \<Rightarrow> (Inr (), s1)
      | (Inr u, s1) \<Rightarrow> (Inr (), s1))"

text \<open>
  \<^verbatim>\<open>logFailure\<close> reads the clock for the document, writes it, and reads the clock again
  for the line it sends to the structured logger.
\<close>

definition logFailure ::
  "config \<Rightarrow> runtime \<Rightarrow> string \<Rightarrow> string \<Rightarrow> string \<Rightarrow> int \<Rightarrow> string option \<Rightarrow> nat option
     \<Rightarrow> state \<Rightarrow> (error + unit) \<times> state" where
  "logFailure cfg rt eventId errorCode errorMessage retryCount correlationId responseStatus s =
     (case clock_now rt s of (now, s1) \<Rightarrow>
        (let ev = \<lparr>event_id = eventId,
                   env = APP_ENV cfg,
                   service_role = SERVICE_ROLE cfg,
                   log_source = ''webhook'',
                   error_code = Some errorCode,
                   error_message = Some errorMessage,
                   retry_count = retryCount,
                   last_error = Some errorMessage,
                   log_status = (if retryCount > 5 then Failed else Processing),
                   response_status = responseStatus,
                   timestamp = now,
                   log_correlation_id = correlationId\<rparr>
         in (case log rt ev s1 of
               (Inl e, s2) \<Rightarrow> (Inl e, s2)
             | (Inr u, s2) \<Rightarrow>
                 (case clock_now rt s2 of (now2, s3) \<Rightarrow> (Inr (), s3)))))"

definition logSuccess ::
  "config \<Rightarrow> runtime \<Rightarrow> string \<Rightarrow> string option \<Rightarrow> nat \<Rightarrow> state \<Rightarrow> (error + unit) \<times> state" where
  "logSuccess cfg rt eventId correlationId responseStatus s =
     (case clock_now rt s of (now, s1) \<Rightarrow>
        (let ev = \<lparr>event_id = eventId,
                   env = APP_ENV cfg,
                   service_role = SERVICE_ROLE cfg,
                   log_source = ''webhook'',
                   error_code = None,
                   error_message = None,
                   retry_count = 0,
                   last_error = None,
                   log_status = Success,
                   response_status = Some responseStatus,
                   timestamp = now,
                   log_correlation_id = correlationId\<rparr>
         in log rt ev s1))"

section \<open>controllers/webhookController.ts\<close>

definition respond :: "nat \<Rightarrow> jsval \<Rightarrow> state \<Rightarrow> state" where
  "respond code b s = emit (Respond code b) s"

text \<open>The two JSON bodies the handler answers with.\<close>

definition accepted_body :: "string \<Rightarrow> jsval" where
  "accepted_body internalEventId =
     JObj [(''status'', JStr ''accepted''), (''internal_event_id'', JStr internalEventId)]"

definition error_body :: "string \<Rightarrow> jsval" where
  "error_body internalEventId =
     JObj [(''error'', JObj [(''message'', JStr ''Internal server error'')]),
           (''internal_event_id'', JStr internalEventId)]"

text \<open>The \<^verbatim>\<open>catch\<close> block of the handler: it tries to log the error, then answers 500.\<close>

definition handler_catch ::
  "config \<Rightarrow> runtime \<Rightarrow> string \<Rightarrow> string option \<Rightarrow> error \<Rightarrow> state \<Rightarrow> state" where
  "handler_catch cfg rt internalEventId correlationId err s =
     (let s2 =
            (case getDb rt s of
               (Inl e, s1) \<Rightarrow> s1
             | (Inr u, s1) \<Rightarrow>
                 snd (logFailure cfg rt internalEventId ''handler_error''
                        (if message err \<noteq> [] then message err else ''Unknown error'')
                        0 correlationId None s1))
      in respond 500 (error_body internalEventId) s2)"

text \<open>The two strings logged for a forward that did not succeed.\<close>

definition errorCode_of :: "forward_result \<Rightarrow> string" where
  "errorCode_of r =
     ''forward_failed_'' @ (if status r \<noteq> 0 then nat_to_string (status r) else ''unknown'')"

definition errorMsg_of :: "config \<Rightarrow> forward_result \<Rightarrow> string" where
  "errorMsg_of cfg r =
     (if FORWARD_TO_MICRO_BACKEND_ONLY cfg then ''micro-backend'' else ''n8n'')
       @ '' forward failed: status='' @ nat_to_string (status r)"

definition handleWebhookEntry :: "config \<Rightarrow> runtime \<Rightarrow> express_request \<Rightarrow> state \<Rightarrow> state" where
  "handleWebhookEntry cfg rt req s =
     (let internalEventId = req_internal_event_id req;
          correlationId = req_correlationId req;
          normalized = js_or (req_normalizedPayload req) (JObj [])
      in (case getDb rt s of
            (Inl e, s1) \<Rightarrow> handler_catch cfg rt internalEventId correlationId e s1
          | (Inr u, s1) \<Rightarrow>
          (case ensureCollection rt s1 of
            (Inl e, s2) \<Rightarrow> handler_catch cfg rt internalEventId correlationId e s2
          | (Inr u, s2) \<Rightarrow>
          (case forwardToDestination cfg rt
                  \<lparr>p_payload = normalized, p_internalEventId = internalEventId,
                   p_correlationId = correlationId\<rparr> s2 of
            (Inl e, s3) \<Rightarrow> handler_catch cfg rt internalEventId correlationId e s3
          | (Inr result, s3) \<Rightarrow>
          (case (if \<not> ok result
                 then logFailure cfg rt internalEventId (errorCode_of result)
                        (errorMsg_of cfg result) 0 correlationId (Some (status result)) s3
                 else logSuccess cfg rt internalEventId correlationId 200 s3) of
            (Inl e, s4) \<Rightarrow> handler_catch cfg rt internalEventId correlationId e s4
          | (Inr u, s4) \<Rightarrow>
              respond 202 (accepted_body internalEventId) s4)))))"

section \<open>Reading a trace\<close>

text \<open>The requests posted, the responses sent and the documents written, in order.\<close>

fun posts_of :: "event list \<Rightarrow> http_request list" where
  "posts_of [] = []"
| "posts_of (Post rq # es) = rq # posts_of es"
| "posts_of (e # es) = posts_of es"

fun responses_of :: "event list \<Rightarrow> (nat \<times> jsval) list" where
  "responses_of [] = []"
| "responses_of (Respond code b # es) = (code, b) # responses_of es"
| "responses_of (e # es) = responses_of es"

fun writes_of :: "event list \<Rightarrow> WebhookEventLog list" where
  "writes_of [] = []"
| "writes_of (DbWrite ev # es) = ev # writes_of es"
| "writes_of (e # es) = writes_of es"

fun clock_reads_of :: "event list \<Rightarrow> nat list" where
  "clock_reads_of [] = []"
| "clock_reads_of (ClockRead t # es) = t # clock_reads_of es"
| "clock_reads_of (e # es) = clock_reads_of es"

text \<open>The status stored for an event id: that of the latest write for it, if any.\<close>

definition stored_status :: "event list \<Rightarrow> string \<Rightarrow> log_status option" where
  "stored_status tr eid =
     (case filter (\<lambda>ev. event_id ev = eid) (writes_of tr) of
        [] \<Rightarrow> None
      | ev # evs \<Rightarrow> Some (log_status (last (ev # evs))))"

text \<open>
  Whether the caller was answered before forwarding began: scanning the effects in
  order, a response comes before any post.
\<close>

fun acked_before_forwarding :: "event list \<Rightarrow> bool" where
  "acked_before_forwarding [] = True"
| "acked_before_forwarding (Respond code b # es) = True"
| "acked_before_forwarding (Post rq # es) = False"
| "acked_before_forwarding (e # es) = acked_before_forwarding es"

text \<open>
  An outcome of \<^verbatim>\<open>http.post\<close> after which the loop goes on to the next attempt: a
  rejection whose status does not end the run (5xx, 429, or no response at all).
\<close>

fun retryable :: "http_outcome \<Rightarrow> bool" where
  "retryable (Resolved st d) = False"
| "retryable (Rejected st d msg) = (terminal_status st = None)"

section \<open>Example inputs\<close>

text \<open>
  The configuration, payload and identifiers of the repository's test suite
  (\<^verbatim>\<open>tests/microBackendForwarder.test.ts\<close>).
\<close>

definition example_config :: config where
  "example_config =
     \<lparr>MICRO_BACKEND_URL = ''http://localhost:3000'',
      MICRO_BACKEND_HMAC_SECRET = ''test_micro_backend_secret_at_least_32_chars_long_!!'',
      MICRO_BACKEND_JWT = ''jwt_token_min_32_chars_long_!!!!!!'',
      MICRO_BACKEND_DEVICE_ID = ''webhook-gateway'',
      FORWARD_TO_MICRO_BACKEND_ONLY = True,
      APP_ENV = ''test'',
      SERVICE_ROLE = ''api''\<rparr>"

definition example_payload :: jsval where
  "example_payload =
     JObj [(''type'', JStr ''user.created''),
           (''id'', JStr ''evt_123''),
           (''data'', JObj [(''user_id'', JStr ''456''), (''email'', JStr ''test@example.com'')])]"

definition example_request :: express_request where
  "example_request =
     \<lparr>req_internal_event_id = ''evt_internal_789'',
      req_correlationId = Some ''corr_123'',
      req_normalizedPayload = example_payload\<rparr>"

definition example_params :: forward_params where
  "example_params =
     \<lparr>p_payload = example_payload,
      p_internalEventId = ''evt_internal_789'',
      p_correlationId = Some ''corr_123''\<rparr>"

text \<open>
  A target that answers 500 twice and then 201 (the test "retries on 5xx errors"), and
  one that answers 400 (the test "handles 4xx errors without retry").
\<close>

definition flaky_target :: "nat \<Rightarrow> http_request \<Rightarrow> http_outcome" where
  "flaky_target k rq =
     (if k < 2 then Rejected (Some 500) (JObj [(''error'', JStr ''Server error'')])
                      ''Internal Server Error''
      else Resolved 201 (JObj [(''flow_id'', JStr ''flow_123'')]))"

definition rejecting_target :: "nat \<Rightarrow> http_request \<Rightarrow> http_outcome" where
  "rejecting_target k rq =
     Rejected (Some 400) (JObj [(''error'', JStr ''Invalid payload'')]) ''Bad Request''"

text \<open>
  An example runtime. Its HMAC and serializer are stand-ins that keep their arguments
  visible; the clock starts at 2024-12-31T12:00:00Z and advances 250 ms per reading.
\<close>

definition example_runtime :: runtime where
  "example_runtime =
     \<lparr>hmac_sha256_hex = (\<lambda>key msg. ''hmac<'' @ key @ ''|'' @ msg @ ''>''),
      JSON_stringify = (\<lambda>e. ''{envelope of '' @ internal_event_id e @ ''}''),
      now_ms = (\<lambda>k. 1735646400000 + 250 * k),
      http_post = flaky_target,
      getJitterDelay = (\<lambda>k m. 300),
      db_fault = (\<lambda>k. None),
      forwardToN8n = (\<lambda>p. \<lparr>ok = True, status = 200, body = JUndefined\<rparr>)\<rparr>"

definition rejecting_runtime :: runtime where
  "rejecting_runtime = example_runtime\<lparr>http_post := rejecting_target\<rparr>"

text \<open>The same runtime with a database in which every operation after the first throws.\<close>

definition failing_db_runtime :: runtime where
  "failing_db_runtime =
     example_runtime\<lparr>db_fault := (\<lambda>k. if k = 0 then None else Some ''connection lost'')\<rparr>"

text \<open>The same runtime when the database handle cannot be obtained.\<close>

definition no_db_runtime :: runtime where
  "no_db_runtime = example_runtime\<lparr>db_fault := (\<lambda>k. Some ''MONGO_URI is not set'')\<rparr>"

text \<open>A payload whose \<^verbatim>\<open>type\<close> and \<^verbatim>\<open>id\<close> fields are present and falsy.\<close>

definition falsy_payload :: jsval where
  "falsy_payload = JObj [(''type'', JStr ''''), (''id'', JNum 0)]"

text \<open>The example runtime with a clock that starts at the epoch and ticks once per reading.\<close>

definition millisecond_clock :: runtime where
  "millisecond_clock = example_runtime\<lparr>now_ms := (\<lambda>k. k)\<rparr>"

text \<open>The envelope the adapter builds for the example request at the example clock's start.\<close>

definition example_envelope :: envelope where
  "example_envelope =
     \<lparr>source = ''webhook-gateway'',
      event_type = JStr ''user.created'',
      external_id = JStr ''evt_123'',
      payload = example_payload,
      occurred_at = ''2024-12-31T12:00:00.000Z'',
      correlation_id = Some ''corr_123'',
      internal_event_id = ''evt_internal_789''\<rparr>"

definition example_url :: string where
  "example_url = ''http://localhost:3000/api/v1/flow/create''"

section \<open>How each operation extends the trace\<close>

lemma posts_of_append [simp]: "posts_of (xs @ ys) = posts_of xs @ posts_of ys"
  by (induction xs rule: posts_of.induct) simp_all
lemma responses_of_append [simp]: "responses_of (xs @ ys) = responses_of xs @ responses_of ys"
  by (induction xs rule: responses_of.induct) simp_all
lemma writes_of_append [simp]: "writes_of (xs @ ys) = writes_of xs @ writes_of ys"
  by (induction xs rule: writes_of.induct) simp_all
lemma clock_reads_of_append [simp]: "clock_reads_of (xs @ ys) = clock_reads_of xs @ clock_reads_of ys"
  by (induction xs rule: clock_reads_of.induct) simp_all

text \<open>What a stretch of effects may contain while the retry loop runs.\<close>

lemma backoff_effect:
  "\<exists>evs. trace (backoff rt m a s) = trace s @ evs \<and> posts_of evs = [] \<and> clock_reads_of evs = []
     \<and> responses_of evs = [] \<and> writes_of evs = []
     \<and> n_http (backoff rt m a s) = n_http s \<and> n_clock (backoff rt m a s) = n_clock s
     \<and> n_db (backoff rt m a s) = n_db s"
  by (simp add: backoff_def jitter_call_def sleep_def emit_def Let_def)

lemma forward_loop_effect:
  "forward_loop rt url pl hs m a le s = (r, s') \<Longrightarrow>
   \<exists>evs k. trace s' = trace s @ evs
      \<and> posts_of evs = replicate k \<lparr>post_url = url, post_payload = pl, post_headers = hs\<rparr>
      \<and> k \<le> Suc m - a \<and> n_http s' = n_http s + k
      \<and> clock_reads_of evs = [] \<and> responses_of evs = [] \<and> writes_of evs = []
      \<and> n_clock s' = n_clock s \<and> n_db s' = n_db s"
proof (induction rt url pl hs m a le s arbitrary: r s' rule: forward_loop.induct)
  case (1 rt url pl hs m a le s)
  let ?rq = "\<lparr>post_url = url, post_payload = pl, post_headers = hs\<rparr>"
  let ?s1 = "emit (Post ?rq) (s\<lparr>n_http := n_http s + 1\<rparr>)"
  show ?case
  proof (cases "a \<le> m")
    case False
    with "1.prems" have "s' = s" by (simp add: forward_loop.simps)
    then show ?thesis by (intro exI[of _ "[]"] exI[of _ 0]) simp
  next
    case am: True
    show ?thesis
    proof (cases "http_post rt (n_http s) ?rq")
      case (Resolved st d)
      with am "1.prems" have "s' = ?s1"
        by (simp add: forward_loop.simps http_post_call_def)
      with am show ?thesis
        by (intro exI[of _ "[Post ?rq]"] exI[of _ 1]) (simp add: emit_def)
    next
      case (Rejected st d msg)
      show ?thesis
      proof (cases "terminal_status st")
        case (Some n)
        with Rejected am "1.prems" have "s' = ?s1"
          by (simp add: forward_loop.simps http_post_call_def)
        with am show ?thesis
          by (intro exI[of _ "[Post ?rq]"] exI[of _ 1]) (simp add: emit_def)
      next
        case None
        let ?s2 = "backoff rt m a ?s1"
        from None Rejected am "1.prems"
        have rec: "forward_loop rt url pl hs m (a + 1) (Some msg) ?s2 = (r, s')"
          by (simp add: forward_loop.simps[of rt url pl hs m a] http_post_call_def)
        have "http_post_call rt ?rq s = (Rejected st d msg, ?s1)"
          by (simp add: http_post_call_def Rejected)
        from "1.IH"[OF am this[symmetric] refl None rec]
        obtain evs k where ih: "trace s' = trace ?s2 @ evs"
          "posts_of evs = replicate k ?rq" "k \<le> Suc m - (a + 1)" "n_http s' = n_http ?s2 + k"
          "clock_reads_of evs = []" "responses_of evs = []" "writes_of evs = []"
          "n_clock s' = n_clock ?s2" "n_db s' = n_db ?s2"
          by blast
        from backoff_effect[of rt m a ?s1]
        obtain bs where b: "trace ?s2 = trace ?s1 @ bs" "posts_of bs = []" "clock_reads_of bs = []"
          "responses_of bs = []" "writes_of bs = []" "n_http ?s2 = n_http ?s1"
          "n_clock ?s2 = n_clock ?s1" "n_db ?s2 = n_db ?s1"
          by blast
        show ?thesis
          using ih b am
          by (intro exI[of _ "Post ?rq # bs @ evs"] exI[of _ "Suc k"]) (simp add: emit_def)
      qed
    qed
  qed
qed

lemma db_op_effect:
  "db_op rt s = (r, s') \<Longrightarrow> trace s' = trace s \<and> n_http s' = n_http s \<and> n_clock s' = n_clock s
     \<and> n_db s' = n_db s + 1 \<and> (r = Inr () \<longleftrightarrow> db_fault rt (n_db s) = None)"
  by (auto simp: db_op_def split: option.splits)

lemma createIndexes_effect:
  "createIndexes k rt s = (r, s') \<Longrightarrow> trace s' = trace s \<and> n_http s' = n_http s \<and> n_clock s' = n_clock s"
proof (induction k arbitrary: s)
  case 0
  then show ?case by simp
next
  case (Suc k)
  obtain r1 s1 where d: "db_op rt s = (r1, s1)" by (cases "db_op rt s")
  show ?case
  proof (cases r1)
    case (Inl e)
    with d Suc.prems db_op_effect[OF d] show ?thesis by simp
  next
    case (Inr u)
    with d Suc.prems have "createIndexes k rt s1 = (r, s')" by simp
    from Suc.IH[OF this] db_op_effect[OF d] show ?thesis by simp
  qed
qed

lemma ensureCollection_effect:
  "ensureCollection rt s = (r, s') \<Longrightarrow>
     r = Inr () \<and> trace s' = trace s \<and> n_http s' = n_http s \<and> n_clock s' = n_clock s"
proof -
  assume a: "ensureCollection rt s = (r, s')"
  obtain r1 s1 where c: "createIndexes (Suc (Suc (Suc (Suc 0)))) rt s = (r1, s1)" by (cases "createIndexes (Suc (Suc (Suc (Suc 0)))) rt s")
  from a c have "r = Inr ()" "s' = s1"
    by (auto simp: ensureCollection_def split: sum.splits)
  with createIndexes_effect[OF c] show ?thesis by simp
qed

lemma log_eq:
  "log rt ev s =
     (Inr (), if db_fault rt (n_db s) = None
              then emit (DbWrite ev) (s\<lparr>n_db := n_db s + 1\<rparr>)
              else s\<lparr>n_db := n_db s + 1\<rparr>)"
  by (simp add: log_def updateOne_def db_op_def split: option.splits)

lemma logSuccess_effect:
  "logSuccess cfg rt eid corr rs s = (r, s') \<Longrightarrow>
     r = Inr () \<and>
     (\<exists>evs. trace s' = trace s @ evs \<and> posts_of evs = [] \<and> responses_of evs = []
        \<and> (\<forall>ev \<in> set (writes_of evs). event_id ev = eid \<and> log_status ev = Success \<and> retry_count ev = 0
               \<and> error_code ev = None)
        \<and> (db_fault rt (n_db s) = None \<longrightarrow> length (writes_of evs) = 1))"
  by (auto simp: logSuccess_def log_eq clock_now_def emit_def Let_def split: if_splits)

lemma logFailure_effect:
  "logFailure cfg rt eid ec em rc corr rs s = (r, s') \<Longrightarrow>
     r = Inr () \<and>
     (\<exists>evs. trace s' = trace s @ evs \<and> posts_of evs = [] \<and> responses_of evs = []
        \<and> (\<forall>ev \<in> set (writes_of evs). event_id ev = eid
               \<and> log_status ev = (if rc > 5 then Failed else Processing) \<and> retry_count ev = rc
               \<and> error_code ev = Some ec)
        \<and> (db_fault rt (n_db s) = None \<longrightarrow> length (writes_of evs) = 1))"
  by (auto simp: logFailure_def log_eq clock_now_def emit_def Let_def split: if_splits)

lemma adapt_effect:
  "adaptPayloadForMicroBackend rt p eid corr s = (r, s') \<Longrightarrow>
     \<exists>evs. trace s' = trace s @ evs \<and> posts_of evs = [] \<and> responses_of evs = []
        \<and> writes_of evs = [] \<and> n_db s' = n_db s \<and> n_http s' = n_http s"
  by (auto simp: adaptPayloadForMicroBackend_def clock_now_def emit_def Let_def
           split: sum.splits)

lemma sign_effect:
  "generateMicroBackendSignature rt pl secret s = (r, s') \<Longrightarrow>
     \<exists>evs. trace s' = trace s @ evs \<and> posts_of evs = [] \<and> responses_of evs = []
        \<and> writes_of evs = [] \<and> n_db s' = n_db s \<and> n_http s' = n_http s"
  by (auto simp: generateMicroBackendSignature_def clock_now_def emit_def Let_def)

lemma forwardToMicroBackend_effect:
  assumes "forwardToMicroBackend cfg rt params s = (r, s')"
  shows "\<exists>evs. trace s' = trace s @ evs \<and> responses_of evs = [] \<and> writes_of evs = []
            \<and> n_db s' = n_db s"
proof (cases "MICRO_BACKEND_URL cfg = [] \<or> MICRO_BACKEND_HMAC_SECRET cfg = []")
  case True
  with assms have "s' = s" by (auto simp: forwardToMicroBackend_def Let_def split: if_splits)
  then show ?thesis by simp
next
  case cfg_ok: False
  obtain ra s1 where a: "adaptPayloadForMicroBackend rt (p_payload params)
      (p_internalEventId params) (p_correlationId params) s = (ra, s1)"
    by (cases "adaptPayloadForMicroBackend rt (p_payload params)
      (p_internalEventId params) (p_correlationId params) s")
  from adapt_effect[OF a] obtain e1 where e1: "trace s1 = trace s @ e1" "responses_of e1 = []"
    "writes_of e1 = []" "n_db s1 = n_db s" by blast
  show ?thesis
  proof (cases ra)
    case (Inl e)
    with a cfg_ok assms have "s' = s1" by (simp add: forwardToMicroBackend_def Let_def)
    with e1 show ?thesis by simp
  next
    case (Inr pl)
    obtain sg ts s2 where g: "generateMicroBackendSignature rt pl (MICRO_BACKEND_HMAC_SECRET cfg) s1
        = ((sg, ts), s2)"
      by (cases "generateMicroBackendSignature rt pl (MICRO_BACKEND_HMAC_SECRET cfg) s1") auto
    from sign_effect[OF g] obtain e2 where e2: "trace s2 = trace s1 @ e2" "responses_of e2 = []"
      "writes_of e2 = []" "n_db s2 = n_db s1" by blast
    obtain rf s3 where f: "forward_loop rt (MICRO_BACKEND_URL cfg @ ''/api/v1/flow/create'') pl
        (build_headers cfg sg ts (p_correlationId params)) MAX_MICRO_BACKEND_RETRIES 1 None s2 = (rf, s3)"
      by (cases "forward_loop rt (MICRO_BACKEND_URL cfg @ ''/api/v1/flow/create'') pl
        (build_headers cfg sg ts (p_correlationId params)) MAX_MICRO_BACKEND_RETRIES 1 None s2")
    from forward_loop_effect[OF f] obtain e3 where e3: "trace s3 = trace s2 @ e3"
      "responses_of e3 = []" "writes_of e3 = []" "n_db s3 = n_db s2" by blast
    from Inr a g f cfg_ok assms have "s' = s3"
      by (simp add: forwardToMicroBackend_def forwardWithRetry_def Let_def)
    with e1 e2 e3 show ?thesis by simp
  qed
qed

lemma forwardToDestination_effect:
  assumes "forwardToDestination cfg rt params s = (r, s')"
  shows "\<exists>evs. trace s' = trace s @ evs \<and> responses_of evs = [] \<and> writes_of evs = []
            \<and> n_db s' = n_db s"
proof (cases "FORWARD_TO_MICRO_BACKEND_ONLY cfg")
  case True
  with assms have "forwardToMicroBackend cfg rt params s = (r, s')"
    by (simp add: forwardToDestination_def)
  from forwardToMicroBackend_effect[OF this] show ?thesis .
next
  case False
  with assms have "s' = s" by (simp add: forwardToDestination_def)
  then show ?thesis by simp
qed

lemma handler_catch_effect:
  "\<exists>evs. trace (handler_catch cfg rt eid corr err s) = trace s @ evs @ [Respond 500 (error_body eid)]
      \<and> responses_of evs = [] \<and> posts_of evs = []
      \<and> (\<forall>ev \<in> set (writes_of evs). event_id ev = eid \<and> log_status ev = Processing \<and> retry_count ev = 0)"
proof -
  obtain r1 s1 where g: "getDb rt s = (r1, s1)" by (cases "getDb rt s")
  then have t1: "trace s1 = trace s" using db_op_effect[of rt s r1 s1] by (simp add: getDb_def)
  show ?thesis
  proof (cases r1)
    case (Inl e)
    with g t1 show ?thesis
      by (intro exI[of _ "[]"]) (simp add: handler_catch_def respond_def emit_def)
  next
    case (Inr u)
    let ?m = "if message err \<noteq> [] then message err else ''Unknown error''"
    obtain r2 s2 where l: "logFailure cfg rt eid ''handler_error'' ?m 0 corr None s1 = (r2, s2)"
      by (cases "logFailure cfg rt eid ''handler_error'' ?m 0 corr None s1")
    from logFailure_effect[OF l] obtain evs where e: "trace s2 = trace s1 @ evs" "posts_of evs = []"
      "responses_of evs = []"
      "\<forall>ev \<in> set (writes_of evs). event_id ev = eid \<and> log_status ev = Processing \<and> retry_count ev = 0"
      by auto
    from Inr g l have "handler_catch cfg rt eid corr err s = respond 500 (error_body eid) s2"
      by (simp add: handler_catch_def)
    with e t1 show ?thesis
      by (intro exI[of _ evs]) (simp add: respond_def emit_def)
  qed
qed

lemma get_prop_truthy: "truthy p \<Longrightarrow> \<exists>v. get_prop p k = Inr v"
  by (cases p) simp_all

lemma truthy_js_or_obj: "truthy (js_or p (JObj []))"
  by (simp add: js_or_def)

lemma adapt_truthy:
  "truthy p \<Longrightarrow> \<exists>e s'. adaptPayloadForMicroBackend rt p eid corr s = (Inr e, s')"
  using get_prop_truthy[of p "''type''"] get_prop_truthy[of p "''id''"]
  by (auto simp: adaptPayloadForMicroBackend_def clock_now_def Let_def)

lemma forwardToDestination_truthy:
  assumes "truthy (p_payload params)"
  shows "\<exists>res. fst (forwardToDestination cfg rt params s) = Inr res"
proof -
  from adapt_truthy[OF assms] obtain e s' where
    "adaptPayloadForMicroBackend rt (p_payload params) (p_internalEventId params)
       (p_correlationId params) s = (Inr e, s')" by blast
  then show ?thesis
    by (auto simp: forwardToDestination_def forwardToMicroBackend_def Let_def split: prod.splits)
qed

lemma handler_trace:
  "\<exists>evs. trace (handleWebhookEntry cfg rt req s)
           = trace s @ evs @ [if db_fault rt (n_db s) = None
                              then Respond 202 (accepted_body (req_internal_event_id req))
                              else Respond 500 (error_body (req_internal_event_id req))]
      \<and> responses_of evs = []
      \<and> (\<forall>ev \<in> set (writes_of evs). event_id ev = req_internal_event_id req
             \<and> log_status ev \<noteq> Failed \<and> retry_count ev = 0
             \<and> (error_code ev \<noteq> None \<longrightarrow> log_status ev = Processing))"
proof -
  let ?eid = "req_internal_event_id req" and ?corr = "req_correlationId req"
  let ?params = "\<lparr>p_payload = js_or (req_normalizedPayload req) (JObj []),
                   p_internalEventId = ?eid, p_correlationId = ?corr\<rparr>"
  obtain r1 s1 where g: "getDb rt s = (r1, s1)" by (cases "getDb rt s")
  then have d1: "trace s1 = trace s" "r1 = Inr () \<longleftrightarrow> db_fault rt (n_db s) = None"
    using db_op_effect[of rt s r1 s1] by (simp_all add: getDb_def)
  show ?thesis
  proof (cases r1)
    case (Inl e)
    with g have h: "handleWebhookEntry cfg rt req s = handler_catch cfg rt ?eid ?corr e s1"
      by (simp add: handleWebhookEntry_def)
    from Inl d1 have "db_fault rt (n_db s) \<noteq> None" by auto
    with handler_catch_effect[of cfg rt ?eid ?corr e s1] h d1 show ?thesis
      by auto
  next
    case (Inr u)
    with d1 have ok: "db_fault rt (n_db s) = None" by simp
    obtain r2 s2 where c: "ensureCollection rt s1 = (r2, s2)" by (cases "ensureCollection rt s1")
    from ensureCollection_effect[OF c] have d2: "r2 = Inr ()" "trace s2 = trace s1" by simp_all
    obtain r3 s3 where f: "forwardToDestination cfg rt ?params s2 = (r3, s3)"
      by (cases "forwardToDestination cfg rt ?params s2")
    from forwardToDestination_effect[OF f] obtain e3 where e3: "trace s3 = trace s2 @ e3"
      "responses_of e3 = []" "writes_of e3 = []" by blast
    from forwardToDestination_truthy[of ?params cfg rt s2] f obtain res where res: "r3 = Inr res"
      by (auto simp: truthy_js_or_obj)
    let ?lg = "if \<not> ok res
                 then logFailure cfg rt ?eid (errorCode_of res)
                        (errorMsg_of cfg res) 0 ?corr (Some (status res)) s3
                 else logSuccess cfg rt ?eid ?corr 200 s3"
    obtain r4 s4 where l: "?lg = (r4, s4)" by (cases ?lg)
    have "r4 = Inr () \<and> (\<exists>evs. trace s4 = trace s3 @ evs \<and> responses_of evs = []
        \<and> (\<forall>ev \<in> set (writes_of evs). event_id ev = ?eid \<and> log_status ev \<noteq> Failed \<and> retry_count ev = 0
               \<and> (error_code ev \<noteq> None \<longrightarrow> log_status ev = Processing)))"
    proof (cases "ok res")
      case True
      with l have "logSuccess cfg rt ?eid ?corr 200 s3 = (r4, s4)" by simp
      from logSuccess_effect[OF this] show ?thesis by auto
    next
      case False
      with l have "logFailure cfg rt ?eid (errorCode_of res)
                        (errorMsg_of cfg res) 0 ?corr (Some (status res)) s3 = (r4, s4)" by simp
      from logFailure_effect[OF this] show ?thesis by auto
    qed
    then obtain e4 where e4: "r4 = Inr ()" "trace s4 = trace s3 @ e4" "responses_of e4 = []"
      "\<forall>ev \<in> set (writes_of e4). event_id ev = ?eid \<and> log_status ev \<noteq> Failed \<and> retry_count ev = 0
          \<and> (error_code ev \<noteq> None \<longrightarrow> log_status ev = Processing)"
      by blast
    from Inr g c d2 f res l e4
    have "handleWebhookEntry cfg rt req s = respond 202 (accepted_body ?eid) s4"
      by (simp add: handleWebhookEntry_def Let_def)
    with e3 e4 d1 d2 ok show ?thesis
      by (intro exI[of _ "e3 @ e4"]) (simp add: respond_def emit_def)
  qed
qed

lemma forward_loop_resolved:
  "a \<le> m \<Longrightarrow> http_post rt (n_http s) \<lparr>post_url = url, post_payload = pl, post_headers = hs\<rparr> = Resolved st d \<Longrightarrow>
   forward_loop rt url pl hs m a le s =
     (\<lparr>ok = True, status = st, body = d\<rparr>,
      emit (Post \<lparr>post_url = url, post_payload = pl, post_headers = hs\<rparr>) (s\<lparr>n_http := n_http s + 1\<rparr>))"
  by (simp add: forward_loop.simps http_post_call_def)

lemma forward_loop_terminal:
  "a \<le> m \<Longrightarrow> http_post rt (n_http s) \<lparr>post_url = url, post_payload = pl, post_headers = hs\<rparr> = Rejected st d msg \<Longrightarrow>
   terminal_status st = Some n \<Longrightarrow>
   forward_loop rt url pl hs m a le s =
     (\<lparr>ok = False, status = n, body = d\<rparr>,
      emit (Post \<lparr>post_url = url, post_payload = pl, post_headers = hs\<rparr>) (s\<lparr>n_http := n_http s + 1\<rparr>))"
  by (simp add: forward_loop.simps http_post_call_def)

lemma forward_loop_retry:
  "a \<le> m \<Longrightarrow> http_post rt (n_http s) \<lparr>post_url = url, post_payload = pl, post_headers = hs\<rparr> = Rejected st d msg \<Longrightarrow>
   terminal_status st = None \<Longrightarrow>
   forward_loop rt url pl hs m a le s =
     forward_loop rt url pl hs m (a + 1) (Some msg)
       (backoff rt m a (emit (Post \<lparr>post_url = url, post_payload = pl, post_headers = hs\<rparr>)
          (s\<lparr>n_http := n_http s + 1\<rparr>)))"
  by (simp add: forward_loop.simps[of rt url pl hs m a] http_post_call_def)

lemma forward_loop_skip:
  assumes "\<forall>i<k. retryable (http_post rt (n_http s + i) \<lparr>post_url = url, post_payload = pl, post_headers = hs\<rparr>)"
    and "a + k \<le> Suc m"
  shows "\<exists>le' sk evs. forward_loop rt url pl hs m a le s = forward_loop rt url pl hs m (a + k) le' sk
           \<and> trace sk = trace s @ evs
           \<and> posts_of evs = replicate k \<lparr>post_url = url, post_payload = pl, post_headers = hs\<rparr>
           \<and> clock_reads_of evs = [] \<and> writes_of evs = [] \<and> responses_of evs = []
           \<and> n_http sk = n_http s + k \<and> n_db sk = n_db s \<and> n_clock sk = n_clock s"
  using assms
proof (induction k arbitrary: a le s)
  case 0
  show ?case by (intro exI[of _ le] exI[of _ s] exI[of _ "[]"]) simp
next
  case (Suc k)
  let ?rq = "\<lparr>post_url = url, post_payload = pl, post_headers = hs\<rparr>"
  let ?s1 = "emit (Post ?rq) (s\<lparr>n_http := n_http s + 1\<rparr>)"
  let ?s2 = "backoff rt m a ?s1"
  from Suc.prems(1) have "retryable (http_post rt (n_http s) ?rq)"
    by (metis add.right_neutral zero_less_Suc)
  then obtain st d msg where rj: "http_post rt (n_http s) ?rq = Rejected st d msg"
    "terminal_status st = None"
    by (cases "http_post rt (n_http s) ?rq") auto
  from Suc.prems(2) have am: "a \<le> m" by simp
  have step: "forward_loop rt url pl hs m a le s = forward_loop rt url pl hs m (a + 1) (Some msg) ?s2"
    using forward_loop_retry[OF am rj] .
  from backoff_effect[of rt m a ?s1]
  obtain bs where b: "trace ?s2 = trace ?s1 @ bs" "posts_of bs = []" "clock_reads_of bs = []"
    "responses_of bs = []" "writes_of bs = []" "n_http ?s2 = n_http ?s1"
    "n_clock ?s2 = n_clock ?s1" "n_db ?s2 = n_db ?s1"
    by blast
  have nh: "n_http ?s2 = n_http s + 1" using b(6) by (simp add: emit_def)
  have "\<forall>i<k. retryable (http_post rt (n_http ?s2 + i) ?rq)"
  proof (intro allI impI)
    fix i assume "i < k"
    then have "Suc i < Suc k" by simp
    with Suc.prems(1) have "retryable (http_post rt (n_http s + Suc i) ?rq)" by blast
    then show "retryable (http_post rt (n_http ?s2 + i) ?rq)" using nh by simp
  qed
  moreover from Suc.prems(2) have "(a + 1) + k \<le> Suc m" by simp
  ultimately obtain le' sk evs where ih:
    "forward_loop rt url pl hs m (a + 1) (Some msg) ?s2 = forward_loop rt url pl hs m (a + 1 + k) le' sk"
    "trace sk = trace ?s2 @ evs" "posts_of evs = replicate k ?rq" "clock_reads_of evs = []"
    "writes_of evs = []" "responses_of evs = []" "n_http sk = n_http ?s2 + k"
    "n_db sk = n_db ?s2" "n_clock sk = n_clock ?s2"
    using Suc.IH[of ?s2 "a + 1" "Some msg"] by blast
  show ?case
    using step ih b nh
    by (intro exI[of _ le'] exI[of _ sk] exI[of _ "Post ?rq # bs @ evs"]) (simp add: emit_def)
qed

lemma forwardToMicroBackend_configured:
  assumes "MICRO_BACKEND_URL cfg \<noteq> []" and "MICRO_BACKEND_HMAC_SECRET cfg \<noteq> []"
    and "adaptPayloadForMicroBackend rt (p_payload params) (p_internalEventId params)
           (p_correlationId params) s = (Inr e, s1)"
  shows "\<exists>s2. trace s2 = trace s @ [ClockRead (now_ms rt (n_clock s)), ClockRead (now_ms rt (n_clock s + 1))]
           \<and> n_http s2 = n_http s \<and> n_db s2 = n_db s \<and> n_clock s2 = n_clock s + 2
           \<and> forwardToMicroBackend cfg rt params s =
               (case forwardWithRetry rt (MICRO_BACKEND_URL cfg @ ''/api/v1/flow/create'') e
                       (build_headers cfg
                          (hmac_sha256_hex rt (MICRO_BACKEND_HMAC_SECRET cfg)
                             (nat_to_string (now_ms rt (n_clock s + 1) div 1000) @ ''.'' @ JSON_stringify rt e))
                          (nat_to_string (now_ms rt (n_clock s + 1) div 1000))
                          (p_correlationId params))
                       MAX_MICRO_BACKEND_RETRIES s2 of
                  (r, s3) \<Rightarrow> (Inr r, s3))"
proof -
  from assms(3) have s1: "s1 = emit (ClockRead (now_ms rt (n_clock s))) (s\<lparr>n_clock := n_clock s + 1\<rparr>)"
    by (auto simp: adaptPayloadForMicroBackend_def clock_now_def Let_def split: sum.splits)
  let ?s2 = "emit (ClockRead (now_ms rt (n_clock s + 1))) (s1\<lparr>n_clock := n_clock s1 + 1\<rparr>)"
  show ?thesis
    using assms s1
    by (intro exI[of _ ?s2])
       (simp add: forwardToMicroBackend_def generateMicroBackendSignature_def clock_now_def
          emit_def Let_def)
qed

text \<open>Unfolding the definitions evaluates a run on concrete inputs.\<close>

lemmas run_defs = handleWebhookEntry_def handler_catch_def getDb_def ensureCollection_def
  forwardToDestination_def forwardToMicroBackend_def forwardWithRetry_def forward_loop.simps
  adaptPayloadForMicroBackend_def generateMicroBackendSignature_def build_headers_def
  logFailure_def logSuccess_def log_def updateOne_def db_op_def clock_now_def http_post_call_def
  jitter_call_def sleep_def backoff_def emit_def respond_def js_or_def MAX_MICRO_BACKEND_RETRIES_def
  errorCode_of_def errorMsg_of_def accepted_body_def error_body_def Let_def

lemmas example_defs = example_config_def example_runtime_def example_request_def
  example_payload_def example_params_def flaky_target_def rejecting_target_def
  rejecting_runtime_def failing_db_runtime_def no_db_runtime_def init_state_def

section \<open>The claims\<close>

text \<open>
  Claim C9. Every call of \<^verbatim>\<open>logSuccess\<close> or \<^verbatim>\<open>logFailure\<close> (and of \<^verbatim>\<open>log\<close>, which both
  go through) returns normally, whatever the database does: an error thrown while the
  document is persisted is caught inside the logger, and then nothing is written. So
  a failing write cannot change what the handler answers: two runtimes that agree on
  whether the database handle is obtained lead to the same response, however their
  later database operations behave.
\<close>

theorem recording_errors_absorbed:
  "fst (log rt ev s) = Inr ()
   \<and> fst (logFailure cfg rt eid ec em rc corr rs s) = Inr ()
   \<and> fst (logSuccess cfg rt eid corr rs' s) = Inr ()
   \<and> (db_fault rt (n_db s) \<noteq> None \<longrightarrow> writes_of (trace (snd (log rt ev s))) = writes_of (trace s))
   \<and> (db_fault rt' (n_db s) = db_fault rt (n_db s) \<longrightarrow>
        responses_of (trace (handleWebhookEntry cfg rt' req s))
          = responses_of (trace (handleWebhookEntry cfg rt req s)))"
proof -
  have a: "fst (log rt ev s) = Inr ()" by (simp add: log_eq)
  obtain r1 s1 where l1: "logFailure cfg rt eid ec em rc corr rs s = (r1, s1)"
    by (cases "logFailure cfg rt eid ec em rc corr rs s")
  from logFailure_effect[OF l1] l1 have b: "fst (logFailure cfg rt eid ec em rc corr rs s) = Inr ()"
    by simp
  obtain r2 s2 where l2: "logSuccess cfg rt eid corr rs' s = (r2, s2)"
    by (cases "logSuccess cfg rt eid corr rs' s")
  from logSuccess_effect[OF l2] l2 have c: "fst (logSuccess cfg rt eid corr rs' s) = Inr ()"
    by simp
  have d: "db_fault rt (n_db s) \<noteq> None \<longrightarrow> writes_of (trace (snd (log rt ev s))) = writes_of (trace s)"
    by (simp add: log_eq)
  have e: "db_fault rt' (n_db s) = db_fault rt (n_db s) \<longrightarrow>
        responses_of (trace (handleWebhookEntry cfg rt' req s))
          = responses_of (trace (handleWebhookEntry cfg rt req s))"
  proof
    assume eq: "db_fault rt' (n_db s) = db_fault rt (n_db s)"
    from handler_trace[of cfg rt req s] obtain evs where
      1: "trace (handleWebhookEntry cfg rt req s)
           = trace s @ evs @ [if db_fault rt (n_db s) = None
                              then Respond 202 (accepted_body (req_internal_event_id req))
                              else Respond 500 (error_body (req_internal_event_id req))]"
         "responses_of evs = []" by blast
    from handler_trace[of cfg rt' req s] obtain evs' where
      2: "trace (handleWebhookEntry cfg rt' req s)
           = trace s @ evs' @ [if db_fault rt' (n_db s) = None
                              then Respond 202 (accepted_body (req_internal_event_id req))
                              else Respond 500 (error_body (req_internal_event_id req))]"
         "responses_of evs' = []" by blast
    from 1 2 eq show "responses_of (trace (handleWebhookEntry cfg rt' req s))
          = responses_of (trace (handleWebhookEntry cfg rt req s))" by simp
  qed
  from a b c d e show ?thesis by blast
qed

theorem recording_errors_absorbed_witness:
  "db_fault failing_db_runtime (n_db init_state) = db_fault example_runtime (n_db init_state)
   \<and> db_fault failing_db_runtime 1 \<noteq> None
   \<and> fst (logSuccess example_config failing_db_runtime ''evt_internal_789'' None 200
           (init_state\<lparr>n_db := 1\<rparr>)) = Inr ()
   \<and> responses_of (trace (handleWebhookEntry example_config failing_db_runtime example_request init_state))
      = responses_of (trace (handleWebhookEntry example_config example_runtime example_request init_state))"
  using recording_errors_absorbed[where rt = failing_db_runtime and s = "init_state\<lparr>n_db := 1\<rparr>"
      and cfg = example_config and eid = "''evt_internal_789''" and corr = None and rs' = 200
      and rt' = failing_db_runtime and req = example_request]
    recording_errors_absorbed[where rt = example_runtime and s = init_state
      and cfg = example_config and rt' = failing_db_runtime and req = example_request]
  by (simp add: example_defs)

text \<open>
  Claim C7, as stated, fails on two inputs. The body \<^verbatim>\<open>null\<close> is JSON-decodable, and
  \<^verbatim>\<open>adaptPayloadForMicroBackend\<close> throws a TypeError on it. And a body whose \<^verbatim>\<open>type\<close>
  is the empty string and whose \<^verbatim>\<open>id\<close> is 0 has both fields present, yet the envelope
  carries the defaults, not the fields.
\<close>

theorem adapt_counterexample:
  "fst (adaptPayloadForMicroBackend example_runtime JNull ''evt_internal_789'' None init_state)
     = Inl (TypeError ''Cannot read properties of null (reading type)'')
   \<and> get_prop falsy_payload ''type'' = Inr (JStr '''')
   \<and> get_prop falsy_payload ''id'' = Inr (JNum 0)
   \<and> map_sum id event_type
         (fst (adaptPayloadForMicroBackend example_runtime falsy_payload ''evt_internal_789'' None init_state))
       = Inr (JStr ''webhook_received'')
   \<and> map_sum id external_id
         (fst (adaptPayloadForMicroBackend example_runtime falsy_payload ''evt_internal_789'' None init_state))
       = Inr (JStr ''evt_internal_789'')"
  by (simp add: adaptPayloadForMicroBackend_def falsy_payload_def clock_now_def js_or_def Let_def)

text \<open>
  Claim C7, amended. For every inbound body other than \<^verbatim>\<open>null\<close> (and \<^verbatim>\<open>undefined\<close>),
  every internal event id and every optional correlation id, the adapter succeeds;
  \<^verbatim>\<open>payload\<close> is the body itself; \<^verbatim>\<open>event_type\<close> is the body's \<^verbatim>\<open>type\<close> when that is truthy
  and \<^verbatim>\<open>webhook_received\<close> otherwise; \<^verbatim>\<open>external_id\<close> is the body's \<^verbatim>\<open>id\<close> when that is
  truthy and the internal event id otherwise.
\<close>

theorem adapt_total_on_non_null:
  assumes "p \<noteq> JNull" and "p \<noteq> JUndefined"
  shows "\<exists>ty idv. get_prop p ''type'' = Inr ty \<and> get_prop p ''id'' = Inr idv
     \<and> fst (adaptPayloadForMicroBackend rt p eid corr s)
         = Inr \<lparr>source = ''webhook-gateway'',
                event_type = (if truthy ty then ty else JStr ''webhook_received''),
                external_id = (if truthy idv then idv else JStr eid),
                payload = p,
                occurred_at = toISOString (now_ms rt (n_clock s)),
                correlation_id = corr,
                internal_event_id = eid\<rparr>"
  using assms
  by (cases p) (simp_all add: adaptPayloadForMicroBackend_def clock_now_def js_or_def Let_def)

theorem adapt_total_on_non_null_witness:
  "example_payload \<noteq> JNull \<and> example_payload \<noteq> JUndefined
   \<and> fst (adaptPayloadForMicroBackend example_runtime example_payload ''evt_internal_789''
            (Some ''corr_123'') init_state)
       = Inr \<lparr>source = ''webhook-gateway'',
              event_type = JStr ''user.created'',
              external_id = JStr ''evt_123'',
              payload = example_payload,
              occurred_at = toISOString 1735646400000,
              correlation_id = Some ''corr_123'',
              internal_event_id = ''evt_internal_789''\<rparr>"
  using adapt_total_on_non_null[of example_payload example_runtime "''evt_internal_789''"
      "Some ''corr_123''" init_state]
  by (simp add: example_defs)

text \<open>
  Claim C8, as stated, fails: called twice in a row on the same body, internal event id
  and correlation id, the adapter returns two different envelopes once the clock has
  moved by a millisecond.
\<close>

theorem adapt_depends_on_clock_counterexample:
  "fst (adaptPayloadForMicroBackend millisecond_clock example_payload ''evt_internal_789'' None init_state)
   \<noteq> fst (adaptPayloadForMicroBackend millisecond_clock example_payload ''evt_internal_789'' None
          (snd (adaptPayloadForMicroBackend millisecond_clock example_payload ''evt_internal_789''
                  None init_state)))"
proof -
  have "pad_left 3 0 \<noteq> pad_left 3 1"
    by (simp add: pad_left_def nat_to_string.simps digit_char_def)
  then have "toISOString 0 \<noteq> toISOString 1"
    by (simp add: toISOString_def Let_def)
  then show ?thesis
    by (simp add: adaptPayloadForMicroBackend_def example_defs millisecond_clock_def clock_now_def
          js_or_def emit_def Let_def)
qed

text \<open>
  Claim C8, amended. Two invocations of the adapter on the same body, internal event id
  and correlation id agree on everything except \<^verbatim>\<open>occurred_at\<close>: both throw the same
  error, or both return envelopes that are equal in every other field. \<^verbatim>\<open>occurred_at\<close>
  is the ISO rendering of the clock at the invocation, so the two results are equal
  whenever the two clock readings are.
\<close>

theorem adapt_deterministic_up_to_clock:
  "map_sum id (\<lambda>e. e\<lparr>occurred_at := []\<rparr>) (fst (adaptPayloadForMicroBackend rt1 p eid corr s1))
     = map_sum id (\<lambda>e. e\<lparr>occurred_at := []\<rparr>) (fst (adaptPayloadForMicroBackend rt2 p eid corr s2))
   \<and> (\<forall>e. fst (adaptPayloadForMicroBackend rt1 p eid corr s1) = Inr e \<longrightarrow>
          occurred_at e = toISOString (now_ms rt1 (n_clock s1)))
   \<and> (now_ms rt1 (n_clock s1) = now_ms rt2 (n_clock s2) \<longrightarrow>
        fst (adaptPayloadForMicroBackend rt1 p eid corr s1)
          = fst (adaptPayloadForMicroBackend rt2 p eid corr s2))"
  by (auto simp: adaptPayloadForMicroBackend_def clock_now_def Let_def split: sum.splits)

theorem adapt_deterministic_up_to_clock_witness:
  "now_ms example_runtime (n_clock init_state) = now_ms rejecting_runtime (n_clock init_state)
   \<and> fst (adaptPayloadForMicroBackend example_runtime example_payload ''evt_internal_789'' None init_state)
      = fst (adaptPayloadForMicroBackend rejecting_runtime example_payload ''evt_internal_789'' None init_state)
   \<and> (\<exists>e. fst (adaptPayloadForMicroBackend example_runtime example_payload ''evt_internal_789'' None init_state) = Inr e
         \<and> occurred_at e = toISOString 1735646400000)"
  using adapt_deterministic_up_to_clock[of example_runtime example_payload "''evt_internal_789''" None
      init_state rejecting_runtime init_state]
  by (simp add: example_defs adaptPayloadForMicroBackend_def clock_now_def Let_def)

text \<open>
  Claim C3. Take a run of \<^verbatim>\<open>forwardWithRetry\<close> in which the first \<open>k\<close> attempts fail in
  a retryable way and attempt \<open>k + 1\<close> (still within \<^verbatim>\<open>maxRetries\<close>) is rejected with a
  status in [400, 500) other than 429. Then the run ends there: the result is
  \<^verbatim>\<open>ok = false\<close> with that status and the response data as body, and exactly \<open>k + 1\<close>
  requests have been posted. With \<open>k = 0\<close>: a 4xx on the first attempt means exactly one
  attempt.
\<close>

theorem client_error_ends_run:
  assumes "k < maxRetries"
    and "\<forall>i<k. retryable (http_post rt (n_http s + i)
                   \<lparr>post_url = url, post_payload = pl, post_headers = hs\<rparr>)"
    and "http_post rt (n_http s + k) \<lparr>post_url = url, post_payload = pl, post_headers = hs\<rparr>
           = Rejected (Some st) d msg"
    and "400 \<le> st" and "st < 500" and "st \<noteq> 429"
  shows "\<exists>s'. forwardWithRetry rt url pl hs maxRetries s = (\<lparr>ok = False, status = st, body = d\<rparr>, s')
           \<and> posts_of (trace s') = posts_of (trace s)
                 @ replicate (k + 1) \<lparr>post_url = url, post_payload = pl, post_headers = hs\<rparr>
           \<and> n_http s' = n_http s + (k + 1)"
proof -
  let ?rq = "\<lparr>post_url = url, post_payload = pl, post_headers = hs\<rparr>"
  from assms(1) have bound: "1 + k \<le> Suc maxRetries" by simp
  from forward_loop_skip[OF assms(2) bound, of None]
  obtain le' sk evs where sk:
    "forward_loop rt url pl hs maxRetries 1 None s = forward_loop rt url pl hs maxRetries (1 + k) le' sk"
    "trace sk = trace s @ evs" "posts_of evs = replicate k ?rq" "n_http sk = n_http s + k"
    by blast
  from assms(4-6) have t: "terminal_status (Some st) = Some st" by simp
  from assms(1) have le: "1 + k \<le> maxRetries" by simp
  from assms(3) sk(4) have "http_post rt (n_http sk) ?rq = Rejected (Some st) d msg" by simp
  from forward_loop_terminal[OF le this t, of le']
  have fin: "forward_loop rt url pl hs maxRetries (1 + k) le' sk
      = (\<lparr>ok = False, status = st, body = d\<rparr>, emit (Post ?rq) (sk\<lparr>n_http := n_http sk + 1\<rparr>))" .
  show ?thesis
    using sk fin
    by (intro exI[of _ "emit (Post ?rq) (sk\<lparr>n_http := n_http sk + 1\<rparr>)"])
       (simp add: forwardWithRetry_def emit_def replicate_append_same)
qed

theorem client_error_ends_run_witness:
  "(0::nat) < MAX_MICRO_BACKEND_RETRIES
   \<and> http_post rejecting_runtime (n_http init_state + 0)
        \<lparr>post_url = example_url, post_payload = example_envelope, post_headers = []\<rparr>
       = Rejected (Some 400) (JObj [(''error'', JStr ''Invalid payload'')]) ''Bad Request''
   \<and> (\<exists>s'. forwardWithRetry rejecting_runtime example_url example_envelope []
               MAX_MICRO_BACKEND_RETRIES init_state
             = (\<lparr>ok = False, status = 400, body = JObj [(''error'', JStr ''Invalid payload'')]\<rparr>, s')
          \<and> posts_of (trace s')
             = [\<lparr>post_url = example_url, post_payload = example_envelope, post_headers = []\<rparr>]
          \<and> n_http s' = 1)"
  using client_error_ends_run[where k = 0 and maxRetries = MAX_MICRO_BACKEND_RETRIES
      and rt = rejecting_runtime and s = init_state and url = example_url
      and pl = example_envelope and hs = "[]" and st = 400
      and d = "JObj [(''error'', JStr ''Invalid payload'')]" and msg = "''Bad Request''"]
  by (simp add: example_defs MAX_MICRO_BACKEND_RETRIES_def)

lemma stored_status_appended:
  assumes "writes_of tr = W @ ws" and "ws \<noteq> []"
    and "\<forall>ev \<in> set ws. event_id ev = eid \<and> log_status ev = st"
  shows "stored_status tr eid = Some st"
proof -
  let ?P = "\<lambda>ev. event_id ev = eid"
  from assms(3) have "filter ?P ws = ws" by (simp add: filter_id_conv)
  with assms(1) have f: "filter ?P (writes_of tr) = filter ?P W @ ws" by simp
  with assms(2) have ne: "filter ?P (writes_of tr) \<noteq> []" by simp
  from f assms(2) have "last (filter ?P (writes_of tr)) = last ws" by simp
  moreover from assms(2) have "last ws \<in> set ws" by simp
  ultimately have "log_status (last (filter ?P (writes_of tr))) = st" using assms(3) by simp
  with ne show ?thesis
    by (cases "filter ?P (writes_of tr)") (simp_all add: stored_status_def)
qed

lemma two_failures_then_resolved:
  assumes "retryable (http_post rt (n_http s) \<lparr>post_url = url, post_payload = pl, post_headers = hs\<rparr>)"
    and "retryable (http_post rt (n_http s + 1) \<lparr>post_url = url, post_payload = pl, post_headers = hs\<rparr>)"
    and "http_post rt (n_http s + 2) \<lparr>post_url = url, post_payload = pl, post_headers = hs\<rparr> = Resolved st d"
  shows "\<exists>s' evs. forwardWithRetry rt url pl hs MAX_MICRO_BACKEND_RETRIES s
             = (\<lparr>ok = True, status = st, body = d\<rparr>, s')
           \<and> trace s' = trace s @ evs
           \<and> posts_of evs = replicate 3 \<lparr>post_url = url, post_payload = pl, post_headers = hs\<rparr>
           \<and> writes_of evs = [] \<and> responses_of evs = [] \<and> n_db s' = n_db s"
proof -
  let ?rq = "\<lparr>post_url = url, post_payload = pl, post_headers = hs\<rparr>"
  have pre: "\<forall>i<2. retryable (http_post rt (n_http s + i) ?rq)"
  proof (intro allI impI)
    fix i :: nat assume "i < 2"
    then have "i = 0 \<or> i = 1" by auto
    with assms(1,2) show "retryable (http_post rt (n_http s + i) ?rq)" by auto
  qed
  have bound: "1 + 2 \<le> Suc MAX_MICRO_BACKEND_RETRIES" by (simp add: MAX_MICRO_BACKEND_RETRIES_def)
  from forward_loop_skip[OF pre bound, of None]
  obtain le' sk evs where sk:
    "forward_loop rt url pl hs MAX_MICRO_BACKEND_RETRIES 1 None s
       = forward_loop rt url pl hs MAX_MICRO_BACKEND_RETRIES (1 + 2) le' sk"
    "trace sk = trace s @ evs" "posts_of evs = replicate 2 ?rq" "writes_of evs = []"
    "responses_of evs = []" "n_http sk = n_http s + 2" "n_db sk = n_db s"
    by blast
  have le: "1 + 2 \<le> MAX_MICRO_BACKEND_RETRIES" by (simp add: MAX_MICRO_BACKEND_RETRIES_def)
  from assms(3) sk(6) have "http_post rt (n_http sk) ?rq = Resolved st d" by simp
  from forward_loop_resolved[OF le this, of le']
  have fin: "forward_loop rt url pl hs MAX_MICRO_BACKEND_RETRIES (1 + 2) le' sk
      = (\<lparr>ok = True, status = st, body = d\<rparr>, emit (Post ?rq) (sk\<lparr>n_http := n_http sk + 1\<rparr>))" .
  show ?thesis
    using sk fin
    by (intro exI[of _ "emit (Post ?rq) (sk\<lparr>n_http := n_http sk + 1\<rparr>)"] exI[of _ "evs @ [Post ?rq]"])
       (simp add: forwardWithRetry_def emit_def numeral_3_eq_3 numeral_2_eq_2 replicate_append_same)
qed


text \<open>
  Claim C4. Let the forwarding target answer 500 to the first two posts and 201 to the
  third. Then \<^verbatim>\<open>forwardWithRetry\<close>, under the default \<^verbatim>\<open>MAX_MICRO_BACKEND_RETRIES = 3\<close>,
  posts exactly three times and returns \<^verbatim>\<open>ok = true, status = 201\<close>. And a run of the
  handler against that target, with forwarding to the micro-backend configured and a
  database that works, posts three times, leaves status \<^verbatim>\<open>success\<close> stored for the event
  id, and answers 202.
\<close>

theorem two_retries_then_success_recorded:
  assumes "FORWARD_TO_MICRO_BACKEND_ONLY cfg"
    and "MICRO_BACKEND_URL cfg \<noteq> []" and "MICRO_BACKEND_HMAC_SECRET cfg \<noteq> []"
    and "\<forall>rq. \<exists>d1 m1. http_post rt (n_http s) rq = Rejected (Some 500) d1 m1"
    and "\<forall>rq. \<exists>d2 m2. http_post rt (n_http s + 1) rq = Rejected (Some 500) d2 m2"
    and "\<forall>rq. http_post rt (n_http s + 2) rq = Resolved 201 d"
    and "\<forall>k. db_fault rt k = None"
  shows "(\<exists>s'. forwardWithRetry rt url pl hs MAX_MICRO_BACKEND_RETRIES s
               = (\<lparr>ok = True, status = 201, body = d\<rparr>, s')
            \<and> posts_of (trace s') = posts_of (trace s)
                  @ replicate 3 \<lparr>post_url = url, post_payload = pl, post_headers = hs\<rparr>)
         \<and> length (posts_of (trace (handleWebhookEntry cfg rt req s))) = length (posts_of (trace s)) + 3
         \<and> stored_status (trace (handleWebhookEntry cfg rt req s)) (req_internal_event_id req)
               = Some Success
         \<and> responses_of (trace (handleWebhookEntry cfg rt req s))
               = responses_of (trace s) @ [(202, accepted_body (req_internal_event_id req))]"
proof -
  have retry: "retryable (http_post rt (n_http s) rq)" "retryable (http_post rt (n_http s + 1) rq)" for rq
  proof -
    from assms(4) obtain d1 m1 where "http_post rt (n_http s) rq = Rejected (Some 500) d1 m1" by blast
    then show "retryable (http_post rt (n_http s) rq)" by simp
    from assms(5) obtain d2 m2 where "http_post rt (n_http s + 1) rq = Rejected (Some 500) d2 m2" by blast
    then show "retryable (http_post rt (n_http s + 1) rq)" by simp
  qed
  have part1: "\<exists>s'. forwardWithRetry rt url pl hs MAX_MICRO_BACKEND_RETRIES s
               = (\<lparr>ok = True, status = 201, body = d\<rparr>, s')
            \<and> posts_of (trace s') = posts_of (trace s)
                  @ replicate 3 \<lparr>post_url = url, post_payload = pl, post_headers = hs\<rparr>"
    using two_failures_then_resolved[OF retry(1) retry(2), of url pl hs 201 d] assms(6) by auto
  let ?eid = "req_internal_event_id req" and ?corr = "req_correlationId req"
  let ?params = "\<lparr>p_payload = js_or (req_normalizedPayload req) (JObj []),
                   p_internalEventId = ?eid, p_correlationId = ?corr\<rparr>"
  let ?h = "handleWebhookEntry cfg rt req s"
  \<comment> \<open>the database handle and the indexes\<close>
  obtain r1 s1 where g: "getDb rt s = (r1, s1)" by (cases "getDb rt s")
  with assms(7) have g1: "r1 = Inr ()" "trace s1 = trace s" "n_http s1 = n_http s"
    using db_op_effect[of rt s r1 s1] by (simp_all add: getDb_def)
  obtain r2 s2 where c: "ensureCollection rt s1 = (r2, s2)" by (cases "ensureCollection rt s1")
  from ensureCollection_effect[OF c] have c2: "r2 = Inr ()" "trace s2 = trace s1" "n_http s2 = n_http s1"
    by simp_all
  \<comment> \<open>the adapter and the signer\<close>
  from adapt_truthy[of "p_payload ?params" rt ?eid ?corr s2] obtain e sa where
    a: "adaptPayloadForMicroBackend rt (p_payload ?params) (p_internalEventId ?params)
          (p_correlationId ?params) s2 = (Inr e, sa)"
    by (auto simp: truthy_js_or_obj)
  from forwardToMicroBackend_configured[OF assms(2,3) a] obtain s3 where s3:
    "trace s3 = trace s2 @ [ClockRead (now_ms rt (n_clock s2)), ClockRead (now_ms rt (n_clock s2 + 1))]"
    "n_http s3 = n_http s2" "n_db s3 = n_db s2"
    "forwardToMicroBackend cfg rt ?params s2 =
               (case forwardWithRetry rt (MICRO_BACKEND_URL cfg @ ''/api/v1/flow/create'') e
                       (build_headers cfg
                          (hmac_sha256_hex rt (MICRO_BACKEND_HMAC_SECRET cfg)
                             (nat_to_string (now_ms rt (n_clock s2 + 1) div 1000) @ ''.'' @ JSON_stringify rt e))
                          (nat_to_string (now_ms rt (n_clock s2 + 1) div 1000))
                          (p_correlationId ?params))
                       MAX_MICRO_BACKEND_RETRIES s3 of
                  (r, s3') \<Rightarrow> (Inr r, s3'))"
    by blast
  \<comment> \<open>the three attempts\<close>
  have nh: "n_http s3 = n_http s" using s3(2) c2(3) g1(3) by simp
  let ?url = "MICRO_BACKEND_URL cfg @ ''/api/v1/flow/create''"
  let ?hs = "build_headers cfg
                          (hmac_sha256_hex rt (MICRO_BACKEND_HMAC_SECRET cfg)
                             (nat_to_string (now_ms rt (n_clock s2 + 1) div 1000) @ ''.'' @ JSON_stringify rt e))
                          (nat_to_string (now_ms rt (n_clock s2 + 1) div 1000))
                          (p_correlationId ?params)"
  let ?rq = "\<lparr>post_url = ?url, post_payload = e, post_headers = ?hs\<rparr>"
  have r3: "retryable (http_post rt (n_http s3) ?rq)" "retryable (http_post rt (n_http s3 + 1) ?rq)"
    "http_post rt (n_http s3 + 2) ?rq = Resolved 201 d"
    using retry[of ?rq] assms(6) nh by simp_all
  from two_failures_then_resolved[OF r3] obtain s4 evs where s4:
    "forwardWithRetry rt ?url e ?hs MAX_MICRO_BACKEND_RETRIES s3 = (\<lparr>ok = True, status = 201, body = d\<rparr>, s4)"
    "trace s4 = trace s3 @ evs" "posts_of evs = replicate 3 ?rq" "writes_of evs = []"
    "responses_of evs = []"
    by blast
  from s3(4) s4(1) assms(1)
  have f: "forwardToDestination cfg rt ?params s2 = (Inr \<lparr>ok = True, status = 201, body = d\<rparr>, s4)"
    by (simp add: forwardToDestination_def)
  \<comment> \<open>the outcome record and the response\<close>
  obtain r5 s5 where l: "logSuccess cfg rt ?eid ?corr 200 s4 = (r5, s5)"
    by (cases "logSuccess cfg rt ?eid ?corr 200 s4")
  from logSuccess_effect[OF l] assms(7) obtain e5 where s5: "r5 = Inr ()" "trace s5 = trace s4 @ e5"
    "posts_of e5 = []" "responses_of e5 = []"
    "\<forall>ev \<in> set (writes_of e5). event_id ev = ?eid \<and> log_status ev = Success"
    "length (writes_of e5) = 1"
    by auto
  from g g1 c c2 f l s5(1)
  have h: "?h = respond 202 (accepted_body ?eid) s5"
    by (simp add: handleWebhookEntry_def Let_def)
  have tr: "trace ?h = trace s @ [ClockRead (now_ms rt (n_clock s2)), ClockRead (now_ms rt (n_clock s2 + 1))]
              @ evs @ e5 @ [Respond 202 (accepted_body ?eid)]"
    using h s5(2) s4(2) s3(1) c2(2) g1(2) by (simp add: respond_def emit_def)
  have posts: "length (posts_of (trace ?h)) = length (posts_of (trace s)) + 3"
    using tr s4(3) s5(3) by simp
  have wr: "writes_of (trace ?h) = writes_of (trace s) @ writes_of e5"
    using tr s4(4) by simp
  from s5(6) have ne: "writes_of e5 \<noteq> []" by auto
  have st: "stored_status (trace ?h) ?eid = Some Success"
    using stored_status_appended[OF wr ne] s5(5) by simp
  have resp: "responses_of (trace ?h) = responses_of (trace s) @ [(202, accepted_body ?eid)]"
    using tr s4(5) s5(4) by simp
  from part1 posts st resp show ?thesis by blast
qed

theorem two_retries_then_success_recorded_witness:
  "FORWARD_TO_MICRO_BACKEND_ONLY example_config
   \<and> MICRO_BACKEND_URL example_config \<noteq> [] \<and> MICRO_BACKEND_HMAC_SECRET example_config \<noteq> []
   \<and> (\<forall>rq. \<exists>d1 m1. http_post example_runtime (n_http init_state) rq = Rejected (Some 500) d1 m1)
   \<and> (\<forall>rq. \<exists>d2 m2. http_post example_runtime (n_http init_state + 1) rq = Rejected (Some 500) d2 m2)
   \<and> (\<forall>rq. http_post example_runtime (n_http init_state + 2) rq
          = Resolved 201 (JObj [(''flow_id'', JStr ''flow_123'')]))
   \<and> (\<forall>k. db_fault example_runtime k = None)
   \<and> (\<exists>s'. forwardWithRetry example_runtime example_url example_envelope [] MAX_MICRO_BACKEND_RETRIES
               init_state
               = (\<lparr>ok = True, status = 201, body = JObj [(''flow_id'', JStr ''flow_123'')]\<rparr>, s')
            \<and> posts_of (trace s')
               = replicate 3 \<lparr>post_url = example_url, post_payload = example_envelope, post_headers = []\<rparr>)
   \<and> length (posts_of (trace (handleWebhookEntry example_config example_runtime example_request init_state))) = 3
   \<and> stored_status (trace (handleWebhookEntry example_config example_runtime example_request init_state))
        ''evt_internal_789'' = Some Success"
proof -
  have hyps: "FORWARD_TO_MICRO_BACKEND_ONLY example_config"
    "MICRO_BACKEND_URL example_config \<noteq> []" "MICRO_BACKEND_HMAC_SECRET example_config \<noteq> []"
    "\<forall>rq. \<exists>d1 m1. http_post example_runtime (n_http init_state) rq = Rejected (Some 500) d1 m1"
    "\<forall>rq. \<exists>d2 m2. http_post example_runtime (n_http init_state + 1) rq = Rejected (Some 500) d2 m2"
    "\<forall>rq. http_post example_runtime (n_http init_state + 2) rq
          = Resolved 201 (JObj [(''flow_id'', JStr ''flow_123'')])"
    "\<forall>k. db_fault example_runtime k = None"
    by (simp_all add: example_defs)
  from two_retries_then_success_recorded[OF hyps, of example_url example_envelope "[]" example_request]
  show ?thesis using hyps by (simp add: init_state_def example_request_def)
qed

lemma build_headers_signature:
  "map_of (build_headers cfg sg ts corr) ''X-Signature'' = Some sg
   \<and> map_of (build_headers cfg sg ts corr) ''X-Timestamp'' = Some ts"
  by (simp add: build_headers_def Let_def update_conv')

text \<open>
  The shape of every run of \<^verbatim>\<open>forwardToMicroBackend\<close>: at most two clock readings (the
  adapter's and the signer's), then the attempts, all posting one request whose
  signature and timestamp come from the signer's reading.
\<close>

lemma forwardToMicroBackend_shape:
  "\<exists>pre evs k e.
      trace (snd (forwardToMicroBackend cfg rt params s)) = trace s @ pre @ evs
    \<and> posts_of pre = [] \<and> length pre \<le> 2
    \<and> (0 < k \<longrightarrow> pre = [ClockRead (now_ms rt (n_clock s)), ClockRead (now_ms rt (n_clock s + 1))])
    \<and> clock_reads_of evs = [] \<and> k \<le> MAX_MICRO_BACKEND_RETRIES
    \<and> posts_of evs = replicate k
          \<lparr>post_url = MICRO_BACKEND_URL cfg @ ''/api/v1/flow/create'',
           post_payload = e,
           post_headers = build_headers cfg
             (hmac_sha256_hex rt (MICRO_BACKEND_HMAC_SECRET cfg)
                (nat_to_string (now_ms rt (n_clock s + 1) div 1000) @ ''.'' @ JSON_stringify rt e))
             (nat_to_string (now_ms rt (n_clock s + 1) div 1000))
             (p_correlationId params)\<rparr>"
proof -
  let ?f = "forwardToMicroBackend cfg rt params s"
  obtain ra s1 where a: "adaptPayloadForMicroBackend rt (p_payload params)
      (p_internalEventId params) (p_correlationId params) s = (ra, s1)"
    by (cases "adaptPayloadForMicroBackend rt (p_payload params)
      (p_internalEventId params) (p_correlationId params) s")
  consider (unconfigured) "MICRO_BACKEND_URL cfg = [] \<or> MICRO_BACKEND_HMAC_SECRET cfg = []"
    | (thrown) err where "MICRO_BACKEND_URL cfg \<noteq> []" "MICRO_BACKEND_HMAC_SECRET cfg \<noteq> []" "ra = Inl err"
    | (adapted) e where "MICRO_BACKEND_URL cfg \<noteq> []" "MICRO_BACKEND_HMAC_SECRET cfg \<noteq> []" "ra = Inr e"
    by (cases ra) auto
  then show ?thesis
  proof cases
    case unconfigured
    then have "snd ?f = s" by (auto simp: forwardToMicroBackend_def Let_def)
    then show ?thesis
      by (intro exI[of _ "[]"] exI[of _ 0]) simp
  next
    case thrown
    with a have "s1 = s"
      by (auto simp: adaptPayloadForMicroBackend_def clock_now_def Let_def split: sum.splits)
    with thrown a have "snd ?f = s" by (simp add: forwardToMicroBackend_def Let_def)
    then show ?thesis
      by (intro exI[of _ "[]"] exI[of _ 0]) simp
  next
    case adapted
    let ?url = "MICRO_BACKEND_URL cfg @ ''/api/v1/flow/create''"
    let ?ts = "nat_to_string (now_ms rt (n_clock s + 1) div 1000)"
    let ?hs = "build_headers cfg
             (hmac_sha256_hex rt (MICRO_BACKEND_HMAC_SECRET cfg) (?ts @ ''.'' @ JSON_stringify rt e))
             ?ts (p_correlationId params)"
    let ?pre = "[ClockRead (now_ms rt (n_clock s)), ClockRead (now_ms rt (n_clock s + 1))]"
    from a adapted(3) have a': "adaptPayloadForMicroBackend rt (p_payload params)
      (p_internalEventId params) (p_correlationId params) s = (Inr e, s1)" by simp
    from forwardToMicroBackend_configured[OF adapted(1,2) a'] obtain s2 where s2:
      "trace s2 = trace s @ ?pre"
      "?f = (case forwardWithRetry rt ?url e ?hs MAX_MICRO_BACKEND_RETRIES s2 of
                  (r, s3) \<Rightarrow> (Inr r, s3))"
      by blast
    obtain r s3 where l: "forward_loop rt ?url e ?hs MAX_MICRO_BACKEND_RETRIES 1 None s2 = (r, s3)"
      by (cases "forward_loop rt ?url e ?hs MAX_MICRO_BACKEND_RETRIES 1 None s2")
    from forward_loop_effect[OF l] obtain evs k where ev: "trace s3 = trace s2 @ evs"
      "posts_of evs = replicate k \<lparr>post_url = ?url, post_payload = e, post_headers = ?hs\<rparr>"
      "k \<le> Suc MAX_MICRO_BACKEND_RETRIES - 1" "clock_reads_of evs = []"
      by blast
    from s2(2) l have "snd ?f = s3" by (simp add: forwardWithRetry_def)
    with s2(1) ev show ?thesis
      by (intro exI[of _ ?pre] exI[of _ evs] exI[of _ k] exI[of _ e]) simp
  qed
qed


text \<open>
  Claim C5. The signer returns, as signature, the platform's hex HMAC-SHA256 under the
  given secret of the message made of the timestamp string, one \<^verbatim>\<open>.\<close> and the platform's
  JSON serialization of the envelope, where the timestamp string is the decimal
  rendering of the clock in whole seconds. And every request that
  \<^verbatim>\<open>forwardToMicroBackend\<close> posts carries, in \<^verbatim>\<open>X-Signature\<close>, exactly that digest under the
  outbound secret for its own \<^verbatim>\<open>X-Timestamp\<close> and its own body, with nothing prepended.
\<close>

theorem outbound_signature_is_bare_hmac:
  "fst (generateMicroBackendSignature rt pl secret s)
     = (hmac_sha256_hex rt secret
          (nat_to_string (now_ms rt (n_clock s) div 1000) @ ''.'' @ JSON_stringify rt pl),
        nat_to_string (now_ms rt (n_clock s) div 1000))
   \<and> (\<exists>new. posts_of (trace (snd (forwardToMicroBackend cfg rt params s))) = posts_of (trace s) @ new
        \<and> (\<forall>rq \<in> set new.
              map_of (post_headers rq) ''X-Timestamp''
                = Some (nat_to_string (now_ms rt (n_clock s + 1) div 1000))
            \<and> map_of (post_headers rq) ''X-Signature''
                = Some (hmac_sha256_hex rt (MICRO_BACKEND_HMAC_SECRET cfg)
                          (nat_to_string (now_ms rt (n_clock s + 1) div 1000) @ ''.''
                             @ JSON_stringify rt (post_payload rq)))))"
proof
  show "fst (generateMicroBackendSignature rt pl secret s)
     = (hmac_sha256_hex rt secret
          (nat_to_string (now_ms rt (n_clock s) div 1000) @ ''.'' @ JSON_stringify rt pl),
        nat_to_string (now_ms rt (n_clock s) div 1000))"
    by (simp add: generateMicroBackendSignature_def clock_now_def Let_def)
next
  let ?ts = "nat_to_string (now_ms rt (n_clock s + 1) div 1000)"
  from forwardToMicroBackend_shape[of cfg rt params s] obtain pre evs k e where sh:
    "trace (snd (forwardToMicroBackend cfg rt params s)) = trace s @ pre @ evs"
    "posts_of pre = []"
    "posts_of evs = replicate k
          \<lparr>post_url = MICRO_BACKEND_URL cfg @ ''/api/v1/flow/create'',
           post_payload = e,
           post_headers = build_headers cfg
             (hmac_sha256_hex rt (MICRO_BACKEND_HMAC_SECRET cfg) (?ts @ ''.'' @ JSON_stringify rt e))
             ?ts (p_correlationId params)\<rparr>"
    by blast
  show "\<exists>new. posts_of (trace (snd (forwardToMicroBackend cfg rt params s))) = posts_of (trace s) @ new
        \<and> (\<forall>rq \<in> set new.
              map_of (post_headers rq) ''X-Timestamp'' = Some ?ts
            \<and> map_of (post_headers rq) ''X-Signature''
                = Some (hmac_sha256_hex rt (MICRO_BACKEND_HMAC_SECRET cfg)
                          (?ts @ ''.'' @ JSON_stringify rt (post_payload rq))))"
    using sh by (intro exI[of _ "posts_of evs"]) (auto simp: build_headers_signature)
qed

theorem outbound_signature_is_bare_hmac_witness:
  "\<exists>new. posts_of (trace (snd (forwardToMicroBackend example_config rejecting_runtime example_params
              init_state))) = posts_of (trace init_state) @ new
     \<and> new \<noteq> []
     \<and> (\<forall>rq \<in> set new.
           map_of (post_headers rq) ''X-Timestamp'' = Some ''1735646400''
         \<and> map_of (post_headers rq) ''X-Signature''
             = Some (''hmac<test_micro_backend_secret_at_least_32_chars_long_!!|1735646400.''
                       @ ''{envelope of evt_internal_789}>''))"
  using outbound_signature_is_bare_hmac[where cfg = example_config and rt = rejecting_runtime
      and params = example_params and s = init_state]
  by (simp add: run_defs example_defs nat_to_string.simps digit_char_def)

text \<open>
  Claim C6. The retry loop reads no clock and posts one and the same request (URL, body
  and headers) on every attempt, at most \<^verbatim>\<open>maxRetries\<close> times. In a run of
  \<^verbatim>\<open>forwardToMicroBackend\<close> that posts at all, exactly two clock readings happen, both
  before the first post (the adapter's, then the signer's); every attempt posts the
  same request, at most three times; and that request's \<^verbatim>\<open>X-Timestamp\<close> and
  \<^verbatim>\<open>X-Signature\<close> are the ones computed from the signer's single reading.
\<close>

theorem signed_once_reused_on_every_attempt:
  "(\<exists>evs k. trace (snd (forwardWithRetry rt url pl hs maxRetries s)) = trace s @ evs
       \<and> clock_reads_of evs = [] \<and> k \<le> maxRetries
       \<and> posts_of evs = replicate k \<lparr>post_url = url, post_payload = pl, post_headers = hs\<rparr>)
   \<and> (\<exists>pre evs k rq. trace (snd (forwardToMicroBackend cfg rt params s)) = trace s @ pre @ evs
       \<and> posts_of pre = [] \<and> clock_reads_of evs = [] \<and> k \<le> MAX_MICRO_BACKEND_RETRIES
       \<and> posts_of evs = replicate k rq
       \<and> (0 < k \<longrightarrow>
             pre = [ClockRead (now_ms rt (n_clock s)), ClockRead (now_ms rt (n_clock s + 1))]
           \<and> map_of (post_headers rq) ''X-Timestamp''
               = Some (nat_to_string (now_ms rt (n_clock s + 1) div 1000))
           \<and> map_of (post_headers rq) ''X-Signature''
               = Some (hmac_sha256_hex rt (MICRO_BACKEND_HMAC_SECRET cfg)
                         (nat_to_string (now_ms rt (n_clock s + 1) div 1000) @ ''.''
                            @ JSON_stringify rt (post_payload rq)))))"
proof
  obtain r s' where l: "forward_loop rt url pl hs maxRetries 1 None s = (r, s')"
    by (cases "forward_loop rt url pl hs maxRetries 1 None s")
  from forward_loop_effect[OF l] obtain evs k where "trace s' = trace s @ evs"
    "posts_of evs = replicate k \<lparr>post_url = url, post_payload = pl, post_headers = hs\<rparr>"
    "k \<le> Suc maxRetries - 1" "clock_reads_of evs = []"
    by blast
  with l show "\<exists>evs k. trace (snd (forwardWithRetry rt url pl hs maxRetries s)) = trace s @ evs
       \<and> clock_reads_of evs = [] \<and> k \<le> maxRetries
       \<and> posts_of evs = replicate k \<lparr>post_url = url, post_payload = pl, post_headers = hs\<rparr>"
    by (intro exI[of _ evs] exI[of _ k]) (simp add: forwardWithRetry_def)
next
  let ?ts = "nat_to_string (now_ms rt (n_clock s + 1) div 1000)"
  from forwardToMicroBackend_shape[of cfg rt params s] obtain pre evs k e where sh:
    "trace (snd (forwardToMicroBackend cfg rt params s)) = trace s @ pre @ evs"
    "posts_of pre = []"
    "0 < k \<longrightarrow> pre = [ClockRead (now_ms rt (n_clock s)), ClockRead (now_ms rt (n_clock s + 1))]"
    "clock_reads_of evs = []" "k \<le> MAX_MICRO_BACKEND_RETRIES"
    "posts_of evs = replicate k
          \<lparr>post_url = MICRO_BACKEND_URL cfg @ ''/api/v1/flow/create'',
           post_payload = e,
           post_headers = build_headers cfg
             (hmac_sha256_hex rt (MICRO_BACKEND_HMAC_SECRET cfg) (?ts @ ''.'' @ JSON_stringify rt e))
             ?ts (p_correlationId params)\<rparr>"
    by blast
  let ?rq = "\<lparr>post_url = MICRO_BACKEND_URL cfg @ ''/api/v1/flow/create'',
           post_payload = e,
           post_headers = build_headers cfg
             (hmac_sha256_hex rt (MICRO_BACKEND_HMAC_SECRET cfg) (?ts @ ''.'' @ JSON_stringify rt e))
             ?ts (p_correlationId params)\<rparr>"
  show "\<exists>pre evs k rq. trace (snd (forwardToMicroBackend cfg rt params s)) = trace s @ pre @ evs
       \<and> posts_of pre = [] \<and> clock_reads_of evs = [] \<and> k \<le> MAX_MICRO_BACKEND_RETRIES
       \<and> posts_of evs = replicate k rq
       \<and> (0 < k \<longrightarrow>
             pre = [ClockRead (now_ms rt (n_clock s)), ClockRead (now_ms rt (n_clock s + 1))]
           \<and> map_of (post_headers rq) ''X-Timestamp'' = Some ?ts
           \<and> map_of (post_headers rq) ''X-Signature''
               = Some (hmac_sha256_hex rt (MICRO_BACKEND_HMAC_SECRET cfg)
                         (?ts @ ''.'' @ JSON_stringify rt (post_payload rq))))"
    using sh
    by (intro exI[of _ pre] exI[of _ evs] exI[of _ k] exI[of _ ?rq])
       (simp add: build_headers_signature)
qed

theorem signed_once_reused_on_every_attempt_witness:
  "\<exists>pre evs rq. trace (snd (forwardToMicroBackend example_config example_runtime example_params init_state))
       = trace init_state @ pre @ evs
     \<and> pre = [ClockRead 1735646400000, ClockRead 1735646400250]
     \<and> clock_reads_of evs = []
     \<and> posts_of evs = [rq, rq, rq]
     \<and> map_of (post_headers rq) ''X-Timestamp'' = Some ''1735646400''"
proof -
  let ?run = "trace (snd (forwardToMicroBackend example_config example_runtime example_params init_state))"
  from signed_once_reused_on_every_attempt[where cfg = example_config and rt = example_runtime
      and params = example_params and s = init_state]
  obtain pre evs k rq where w: "?run = trace init_state @ pre @ evs"
    "posts_of pre = []" "clock_reads_of evs = []" "posts_of evs = replicate k rq"
    "0 < k \<longrightarrow>
      pre = [ClockRead (now_ms example_runtime (n_clock init_state)),
             ClockRead (now_ms example_runtime (n_clock init_state + 1))]
      \<and> map_of (post_headers rq) ''X-Timestamp''
          = Some (nat_to_string (now_ms example_runtime (n_clock init_state + 1) div 1000))"
    by blast
  have "length (posts_of ?run) = 3"
    by (simp add: run_defs example_defs)
  with w(1,2,4) have k: "k = 3" by (simp add: init_state_def)
  with w(5) have "pre = [ClockRead 1735646400000, ClockRead 1735646400250]"
    "map_of (post_headers rq) ''X-Timestamp'' = Some ''1735646400''"
    by (simp_all add: example_defs nat_to_string.simps digit_char_def)
  with w(1,3,4) k show ?thesis
    by (intro exI[of _ pre] exI[of _ evs] exI[of _ rq]) (simp add: numeral_3_eq_3)
qed

text \<open>
  Claim C1, as stated, fails: in the run of the handler on the example request, against
  the target that answers 500, 500, 201, three requests are posted before any response
  is sent, and the 202 is the last effect of the run.
\<close>

theorem ack_before_forwarding_counterexample:
  "\<not> acked_before_forwarding
        (trace (handleWebhookEntry example_config example_runtime example_request init_state))
   \<and> length (posts_of
        (trace (handleWebhookEntry example_config example_runtime example_request init_state))) = 3
   \<and> last (trace (handleWebhookEntry example_config example_runtime example_request init_state))
        = Respond 202 (accepted_body ''evt_internal_789'')"
  by (simp add: run_defs example_defs)

text \<open>
  Claim C1, amended. The handler awaits the forwarding call: in every run, the response
  is the last effect, sent once, after the forwarding call with all of its attempts has
  returned and after the outcome has been logged. Every request posted during the run
  is posted before the response.
\<close>

theorem ack_sent_after_forwarding:
  "\<exists>evs ack. trace (handleWebhookEntry cfg rt req s) = trace s @ evs @ [ack]
      \<and> responses_of evs = []
      \<and> responses_of [ack] \<noteq> []
      \<and> posts_of (trace (handleWebhookEntry cfg rt req s)) = posts_of (trace s) @ posts_of evs"
proof -
  from handler_trace[of cfg rt req s] obtain evs where
    e: "trace (handleWebhookEntry cfg rt req s)
           = trace s @ evs @ [if db_fault rt (n_db s) = None
                              then Respond 202 (accepted_body (req_internal_event_id req))
                              else Respond 500 (error_body (req_internal_event_id req))]"
       "responses_of evs = []" by blast
  then show ?thesis
    by (intro exI[of _ evs]
          exI[of _ "if db_fault rt (n_db s) = None
                    then Respond 202 (accepted_body (req_internal_event_id req))
                    else Respond 500 (error_body (req_internal_event_id req))"]) simp
qed

theorem ack_sent_after_forwarding_witness:
  "\<exists>evs ack. trace (handleWebhookEntry example_config example_runtime example_request init_state)
        = evs @ [ack]
      \<and> responses_of evs = []
      \<and> ack = Respond 202 (accepted_body ''evt_internal_789'')
      \<and> length (posts_of evs) = 3"
proof -
  let ?run = "trace (handleWebhookEntry example_config example_runtime example_request init_state)"
  from ack_sent_after_forwarding[of example_config example_runtime example_request init_state]
  obtain evs ack where w: "?run = trace init_state @ evs @ [ack]" "responses_of evs = []"
    "posts_of ?run = posts_of (trace init_state) @ posts_of evs"
    by blast
  have "last ?run = Respond 202 (accepted_body ''evt_internal_789'')"
    "length (posts_of ?run) = 3"
    by (simp_all add: run_defs example_defs)
  with w show ?thesis
    by (intro exI[of _ evs] exI[of _ ack]) (simp add: init_state_def)
qed

text \<open>
  Claim C2, as stated, fails: a request that has passed authentication and validation
  is answered 500 when the handler cannot obtain the database handle, before any
  forwarding takes place.
\<close>

theorem always_2xx_counterexample:
  "responses_of (trace (handleWebhookEntry example_config no_db_runtime example_request init_state))
     = [(500, error_body ''evt_internal_789'')]
   \<and> posts_of (trace (handleWebhookEntry example_config no_db_runtime example_request init_state)) = []"
  by (simp add: run_defs example_defs)

text \<open>
  Claim C2, amended. Every run of the handler sends exactly one response. It is 202
  with the \<^verbatim>\<open>accepted\<close> body whenever the handler obtains the database handle -- whatever
  the configuration and whatever the forwarding stage does: success, a terminal
  failure or exhausted retries, and whether or not the outcome can be written -- and
  500 when obtaining the handle throws. No result of the forwarding stage reaches the
  caller.
\<close>

theorem response_independent_of_forwarding:
  "responses_of (trace (handleWebhookEntry cfg rt req s))
     = responses_of (trace s)
       @ [if db_fault rt (n_db s) = None
          then (202, accepted_body (req_internal_event_id req))
          else (500, error_body (req_internal_event_id req))]"
proof -
  from handler_trace[of cfg rt req s] obtain evs where
    e: "trace (handleWebhookEntry cfg rt req s)
           = trace s @ evs @ [if db_fault rt (n_db s) = None
                              then Respond 202 (accepted_body (req_internal_event_id req))
                              else Respond 500 (error_body (req_internal_event_id req))]"
       "responses_of evs = []" by blast
  then show ?thesis by simp
qed

theorem response_independent_of_forwarding_witness:
  "responses_of (trace (handleWebhookEntry example_config rejecting_runtime example_request init_state))
     = [(202, accepted_body ''evt_internal_789'')]
   \<and> responses_of (trace (handleWebhookEntry example_config
         (example_runtime\<lparr>http_post := (\<lambda>k rq. Rejected None JUndefined ''timeout'')\<rparr>)
         example_request init_state))
     = [(202, accepted_body ''evt_internal_789'')]"
  using response_independent_of_forwarding[of example_config rejecting_runtime example_request init_state]
    response_independent_of_forwarding[of example_config
       "example_runtime\<lparr>http_post := (\<lambda>k rq. Rejected None JUndefined ''timeout'')\<rparr>"
       example_request init_state]
  by (simp add: example_defs)

lemma logFailure_eq:
  "logFailure cfg rt eid ec em rc corr rs s =
     (Inr (),
      (let doc = \<lparr>event_id = eid, env = APP_ENV cfg, service_role = SERVICE_ROLE cfg,
                   log_source = ''webhook'', error_code = Some ec, error_message = Some em,
                   retry_count = rc, last_error = Some em,
                   log_status = (if rc > 5 then Failed else Processing),
                   response_status = rs, timestamp = now_ms rt (n_clock s),
                   log_correlation_id = corr\<rparr>;
           s1 = emit (ClockRead (now_ms rt (n_clock s))) (s\<lparr>n_clock := n_clock s + 1\<rparr>);
           s2 = (if db_fault rt (n_db s) = None
                 then emit (DbWrite doc) (s1\<lparr>n_db := n_db s + 1\<rparr>)
                 else s1\<lparr>n_db := n_db s + 1\<rparr>)
       in emit (ClockRead (now_ms rt (n_clock s + 1))) (s2\<lparr>n_clock := n_clock s + 2\<rparr>)))"
  by (simp add: logFailure_def log_eq clock_now_def emit_def Let_def)

lemma logFailure_writes:
  "writes_of (trace (snd (logFailure cfg rt eid ec em rc corr rs s)))
     = writes_of (trace s)
       @ (if db_fault rt (n_db s) = None
          then [\<lparr>event_id = eid, env = APP_ENV cfg, service_role = SERVICE_ROLE cfg,
                 log_source = ''webhook'', error_code = Some ec, error_message = Some em,
                 retry_count = rc, last_error = Some em,
                 log_status = (if rc > 5 then Failed else Processing),
                 response_status = rs, timestamp = now_ms rt (n_clock s),
                 log_correlation_id = corr\<rparr>]
          else [])"
  by (simp add: logFailure_eq emit_def Let_def)

text \<open>
  The handler's run when the database handle is obtained and the forward returns a
  result that is not ok: the state before forwarding, the forward, then \<^verbatim>\<open>logFailure\<close>
  with retry count 0, then the 202.
\<close>

lemma handler_failed_forward:
  assumes "db_fault rt (n_db s) = None"
    and "forwardToDestination cfg rt
           \<lparr>p_payload = js_or (req_normalizedPayload req) (JObj []),
            p_internalEventId = req_internal_event_id req,
            p_correlationId = req_correlationId req\<rparr>
           (snd (ensureCollection rt (snd (getDb rt s)))) = (Inr res, s3)"
    and "\<not> ok res"
  shows "handleWebhookEntry cfg rt req s
           = respond 202 (accepted_body (req_internal_event_id req))
               (snd (logFailure cfg rt (req_internal_event_id req) (errorCode_of res)
                       (errorMsg_of cfg res) 0 (req_correlationId req) (Some (status res)) s3))"
    and "writes_of (trace s3) = writes_of (trace s)"
proof -
  obtain r1 s1 where g: "getDb rt s = (r1, s1)" by (cases "getDb rt s")
  with assms(1) have g1: "r1 = Inr ()" "trace s1 = trace s"
    using db_op_effect[of rt s r1 s1] by (simp_all add: getDb_def)
  obtain r2 s2 where c: "ensureCollection rt s1 = (r2, s2)" by (cases "ensureCollection rt s1")
  from ensureCollection_effect[OF c] have c2: "r2 = Inr ()" "trace s2 = trace s1" by simp_all
  from assms(2) g c have f: "forwardToDestination cfg rt
           \<lparr>p_payload = js_or (req_normalizedPayload req) (JObj []),
            p_internalEventId = req_internal_event_id req,
            p_correlationId = req_correlationId req\<rparr> s2 = (Inr res, s3)" by simp
  from forwardToDestination_effect[OF f] obtain evs where "trace s3 = trace s2 @ evs"
    "writes_of evs = []" by blast
  with c2 g1 show "writes_of (trace s3) = writes_of (trace s)" by simp
  from g g1 c c2 f assms(3)
  show "handleWebhookEntry cfg rt req s
           = respond 202 (accepted_body (req_internal_event_id req))
               (snd (logFailure cfg rt (req_internal_event_id req) (errorCode_of res)
                       (errorMsg_of cfg res) 0 (req_correlationId req) (Some (status res)) s3))"
    by (simp add: handleWebhookEntry_def Let_def logFailure_eq)
qed

text \<open>
  Claim C10. When the write does not throw, \<^verbatim>\<open>logFailure\<close> writes exactly one document; its
  status is \<^verbatim>\<open>failed\<close> exactly when the \<^verbatim>\<open>retryCount\<close> argument exceeds 5 and \<^verbatim>\<open>processing\<close>
  otherwise, and it carries that retry count. When the write throws, nothing is
  written. The handler always passes 0. So, in a run in which the database handle is
  obtained and the forward returns a result that is not ok, the handler writes, unless
  the write throws, exactly one document: for the event id, with status \<^verbatim>\<open>processing\<close>,
  retry count 0, the error code made from the forward's status and that status as
  response status; \<^verbatim>\<open>processing\<close> is then the status stored for the event. And no document
  written during any run of the handler has status \<^verbatim>\<open>failed\<close>; each has retry count 0.
\<close>

theorem failure_never_stored_as_failed:
  "writes_of (trace (snd (logFailure cfg rt eid ec em rc corr rs s)))
     = writes_of (trace s)
       @ (if db_fault rt (n_db s) = None
          then [\<lparr>event_id = eid, env = APP_ENV cfg, service_role = SERVICE_ROLE cfg,
                 log_source = ''webhook'', error_code = Some ec, error_message = Some em,
                 retry_count = rc, last_error = Some em,
                 log_status = (if rc > 5 then Failed else Processing),
                 response_status = rs, timestamp = now_ms rt (n_clock s),
                 log_correlation_id = corr\<rparr>]
          else [])
   \<and> (\<exists>ws. writes_of (trace (handleWebhookEntry cfg rt req s)) = writes_of (trace s) @ ws
       \<and> (\<forall>ev \<in> set ws. log_status ev \<noteq> Failed \<and> retry_count ev = 0
              \<and> (error_code ev \<noteq> None \<longrightarrow> log_status ev = Processing)))
   \<and> (db_fault rt (n_db s) = None
        \<and> forwardToDestination cfg rt
             \<lparr>p_payload = js_or (req_normalizedPayload req) (JObj []),
              p_internalEventId = req_internal_event_id req,
              p_correlationId = req_correlationId req\<rparr>
             (snd (ensureCollection rt (snd (getDb rt s)))) = (Inr res, sf)
        \<and> \<not> ok res
      \<longrightarrow> writes_of (trace (handleWebhookEntry cfg rt req s))
            = writes_of (trace s)
              @ (if db_fault rt (n_db sf) = None
                 then [\<lparr>event_id = req_internal_event_id req, env = APP_ENV cfg,
                        service_role = SERVICE_ROLE cfg, log_source = ''webhook'',
                        error_code = Some (errorCode_of res),
                        error_message = Some (errorMsg_of cfg res),
                        retry_count = 0, last_error = Some (errorMsg_of cfg res),
                        log_status = Processing,
                        response_status = Some (status res), timestamp = now_ms rt (n_clock sf),
                        log_correlation_id = req_correlationId req\<rparr>]
                 else [])
          \<and> (db_fault rt (n_db sf) = None \<longrightarrow>
                stored_status (trace (handleWebhookEntry cfg rt req s)) (req_internal_event_id req)
                  = Some Processing))"
proof (intro conjI)
  show "writes_of (trace (snd (logFailure cfg rt eid ec em rc corr rs s)))
     = writes_of (trace s)
       @ (if db_fault rt (n_db s) = None
          then [\<lparr>event_id = eid, env = APP_ENV cfg, service_role = SERVICE_ROLE cfg,
                 log_source = ''webhook'', error_code = Some ec, error_message = Some em,
                 retry_count = rc, last_error = Some em,
                 log_status = (if rc > 5 then Failed else Processing),
                 response_status = rs, timestamp = now_ms rt (n_clock s),
                 log_correlation_id = corr\<rparr>]
          else [])"
    by (rule logFailure_writes)
next
  from handler_trace[of cfg rt req s] obtain evs ack where
    e: "trace (handleWebhookEntry cfg rt req s) = trace s @ evs @ [ack]"
      "writes_of [ack] = []"
      "\<forall>ev \<in> set (writes_of evs). event_id ev = req_internal_event_id req
             \<and> log_status ev \<noteq> Failed \<and> retry_count ev = 0
             \<and> (error_code ev \<noteq> None \<longrightarrow> log_status ev = Processing)"
    by (cases "db_fault rt (n_db s) = None") auto
  show "\<exists>ws. writes_of (trace (handleWebhookEntry cfg rt req s)) = writes_of (trace s) @ ws
       \<and> (\<forall>ev \<in> set ws. log_status ev \<noteq> Failed \<and> retry_count ev = 0
              \<and> (error_code ev \<noteq> None \<longrightarrow> log_status ev = Processing))"
    using e by (intro exI[of _ "writes_of evs"]) auto
next
  let ?eid = "req_internal_event_id req"
  let ?h = "handleWebhookEntry cfg rt req s"
  let ?doc = "\<lparr>event_id = ?eid, env = APP_ENV cfg,
                        service_role = SERVICE_ROLE cfg, log_source = ''webhook'',
                        error_code = Some (errorCode_of res),
                        error_message = Some (errorMsg_of cfg res),
                        retry_count = 0, last_error = Some (errorMsg_of cfg res),
                        log_status = Processing,
                        response_status = Some (status res), timestamp = now_ms rt (n_clock sf),
                        log_correlation_id = req_correlationId req\<rparr>"
  show "db_fault rt (n_db s) = None
        \<and> forwardToDestination cfg rt
             \<lparr>p_payload = js_or (req_normalizedPayload req) (JObj []),
              p_internalEventId = ?eid,
              p_correlationId = req_correlationId req\<rparr>
             (snd (ensureCollection rt (snd (getDb rt s)))) = (Inr res, sf)
        \<and> \<not> ok res
      \<longrightarrow> writes_of (trace ?h)
            = writes_of (trace s) @ (if db_fault rt (n_db sf) = None then [?doc] else [])
          \<and> (db_fault rt (n_db sf) = None \<longrightarrow> stored_status (trace ?h) ?eid = Some Processing)"
  proof (intro impI, elim conjE)
    assume a: "db_fault rt (n_db s) = None"
      "forwardToDestination cfg rt
             \<lparr>p_payload = js_or (req_normalizedPayload req) (JObj []),
              p_internalEventId = ?eid,
              p_correlationId = req_correlationId req\<rparr>
             (snd (ensureCollection rt (snd (getDb rt s)))) = (Inr res, sf)"
      "\<not> ok res"
    from handler_failed_forward[OF a]
    have h: "?h = respond 202 (accepted_body ?eid)
               (snd (logFailure cfg rt ?eid (errorCode_of res)
                       (errorMsg_of cfg res) 0 (req_correlationId req) (Some (status res)) sf))"
      and w3: "writes_of (trace sf) = writes_of (trace s)" by simp_all
    have w: "writes_of (trace ?h)
            = writes_of (trace s) @ (if db_fault rt (n_db sf) = None then [?doc] else [])"
      using logFailure_writes[of cfg rt ?eid "errorCode_of res" "errorMsg_of cfg res" 0
          "req_correlationId req" "Some (status res)" sf] w3
      by (simp add: h respond_def emit_def)
    have "db_fault rt (n_db sf) = None \<longrightarrow> stored_status (trace ?h) ?eid = Some Processing"
    proof
      assume "db_fault rt (n_db sf) = None"
      with w have "writes_of (trace ?h) = writes_of (trace s) @ [?doc]" by simp
      from stored_status_appended[OF this, of ?eid Processing]
      show "stored_status (trace ?h) ?eid = Some Processing" by simp
    qed
    with w show "writes_of (trace ?h)
            = writes_of (trace s) @ (if db_fault rt (n_db sf) = None then [?doc] else [])
          \<and> (db_fault rt (n_db sf) = None \<longrightarrow> stored_status (trace ?h) ?eid = Some Processing)"
      by simp
  qed
qed


theorem failure_never_stored_as_failed_witness:
  "db_fault rejecting_runtime (n_db init_state) = None
   \<and> fst (forwardToDestination example_config rejecting_runtime
             \<lparr>p_payload = js_or (req_normalizedPayload example_request) (JObj []),
              p_internalEventId = req_internal_event_id example_request,
              p_correlationId = req_correlationId example_request\<rparr>
             (snd (ensureCollection rejecting_runtime (snd (getDb rejecting_runtime init_state)))))
       = Inr \<lparr>ok = False, status = 400, body = JObj [(''error'', JStr ''Invalid payload'')]\<rparr>
   \<and> map (\<lambda>ev. (event_id ev, error_code ev, log_status ev, retry_count ev, response_status ev))
         (writes_of (trace (handleWebhookEntry example_config rejecting_runtime example_request
            init_state)))
       = [(''evt_internal_789'', Some ''forward_failed_400'', Processing, 0, Some 400)]
   \<and> stored_status (trace (handleWebhookEntry example_config rejecting_runtime example_request
         init_state)) ''evt_internal_789'' = Some Processing
   \<and> map (\<lambda>ev. (error_code ev, log_status ev, retry_count ev))
         (writes_of (trace (snd (logFailure example_config example_runtime ''evt_internal_789''
            ''forward_failed_503'' ''micro-backend forward failed: status=503'' 6 None (Some 503)
            init_state))))
       = [(Some ''forward_failed_503'', Failed, 6)]"
proof -
  let ?params = "\<lparr>p_payload = js_or (req_normalizedPayload example_request) (JObj []),
              p_internalEventId = req_internal_event_id example_request,
              p_correlationId = req_correlationId example_request\<rparr>"
  let ?s2 = "snd (ensureCollection rejecting_runtime (snd (getDb rejecting_runtime init_state)))"
  let ?res = "\<lparr>ok = False, status = 400, body = JObj [(''error'', JStr ''Invalid payload'')]\<rparr>"
  let ?s3 = "snd (forwardToDestination example_config rejecting_runtime ?params ?s2)"
  have h1: "db_fault rejecting_runtime (n_db init_state) = None"
    by (simp add: example_defs)
  have f: "fst (forwardToDestination example_config rejecting_runtime ?params ?s2) = Inr ?res"
    by (simp add: run_defs example_defs)
  then have h2: "forwardToDestination example_config rejecting_runtime ?params ?s2 = (Inr ?res, ?s3)"
    by (simp add: prod_eq_iff)
  have h3: "\<not> ok ?res" by simp
  have h4: "db_fault rejecting_runtime (n_db ?s3) = None"
    by (simp add: example_defs)
  from failure_never_stored_as_failed[where cfg = example_config and rt = rejecting_runtime
      and req = example_request and s = init_state and res = ?res and sf = ?s3] h1 h2 h3 h4
  have w: "writes_of (trace (handleWebhookEntry example_config rejecting_runtime example_request
            init_state))
       = writes_of (trace init_state)
         @ [\<lparr>event_id = req_internal_event_id example_request, env = APP_ENV example_config,
             service_role = SERVICE_ROLE example_config, log_source = ''webhook'',
             error_code = Some (errorCode_of ?res),
             error_message = Some (errorMsg_of example_config ?res),
             retry_count = 0, last_error = Some (errorMsg_of example_config ?res),
             log_status = Processing,
             response_status = Some (status ?res), timestamp = now_ms rejecting_runtime (n_clock ?s3),
             log_correlation_id = req_correlationId example_request\<rparr>]"
    and st: "stored_status (trace (handleWebhookEntry example_config rejecting_runtime example_request
         init_state)) (req_internal_event_id example_request) = Some Processing"
    by simp_all
  from failure_never_stored_as_failed[where cfg = example_config and rt = example_runtime
      and eid = "''evt_internal_789''" and ec = "''forward_failed_503''"
      and em = "''micro-backend forward failed: status=503''" and rc = 6 and corr = None
      and rs = "Some 503" and s = init_state]
  have l: "map (\<lambda>ev. (error_code ev, log_status ev, retry_count ev))
         (writes_of (trace (snd (logFailure example_config example_runtime ''evt_internal_789''
            ''forward_failed_503'' ''micro-backend forward failed: status=503'' 6 None (Some 503)
            init_state))))
       = [(Some ''forward_failed_503'', Failed, 6)]"
    by (simp add: example_defs)
  have m: "map (\<lambda>ev. (event_id ev, error_code ev, log_status ev, retry_count ev, response_status ev))
         (writes_of (trace (handleWebhookEntry example_config rejecting_runtime example_request
            init_state)))
       = [(''evt_internal_789'', Some ''forward_failed_400'', Processing, 0, Some 400)]"
    by (subst w)
       (simp add: init_state_def example_request_def errorCode_of_def
          nat_to_string.simps digit_char_def)
  from h1 f m st l show ?thesis by (simp add: example_request_def)
qed

end
